theory Spec2Isabelle
  imports Main "HOL-Library.Word"
begin

section \<open>Chain specification translators of puppeth (cmd/puppeth/genesis.go)\<close>

text \<open>
  The file converts a go-ethereum genesis block into the chain specification formats of
  three other clients: Aleth (\<open>newAlethGenesisSpec\<close>), Parity (\<open>newParityChainSpec\<close>)
  and pyethereum (\<open>newPyEthereumGenesisSpec\<close>). The three builders and their helper
  methods are embedded below as functions on records.

  Conventions of the embedding:
  \<^item> a Go pointer that the code compares with \<open>nil\<close> or dereferences is an \<open>option\<close>
    (\<open>None\<close> is \<open>nil\<close>); \<open>*big.Int\<close> is \<open>int option\<close>, its value an unbounded
    \<open>int\<close>; \<open>uint64\<close> is \<open>64 word\<close>;
  \<^item> a builder returns \<open>(spec, nil)\<close> (\<open>Returned spec\<close>), returns \<open>(nil, err)\<close>
    (\<open>Failed err\<close>), or does not return because the Go runtime panics (\<open>Panicked\<close>);
  \<^item> nested anonymous structs are records of their own, and every field carries a short
    prefix naming its struct, because many structs share field names.
\<close>

subsection \<open>Basic types\<close>

type_synonym byte = "8 word"
type_synonym uint64 = "64 word"
type_synonym Address = "byte list"
type_synonym Hash = "byte list"

datatype err = UnsupportedConsensusEngine | InvalidForkDependency

datatype panic = NilDereference | NilMapAssignment

datatype 'a result = Returned 'a | Failed err | Panicked panic

text \<open>
  \<open>errors.New("unsupported consensus engine")\<close> is \<open>UnsupportedConsensusEngine\<close>, and
  \<open>errors.New("invalid genesis, istanbul fork is enabled while byzantium is not")\<close> is
  \<open>InvalidForkDependency\<close>.
\<close>

definition result_bind :: "'a result \<Rightarrow> ('a \<Rightarrow> 'b result) \<Rightarrow> 'b result" where
  "result_bind r f = (case r of Returned x \<Rightarrow> f x | Failed e \<Rightarrow> Failed e | Panicked p \<Rightarrow> Panicked p)"

text \<open>
  \<open>(*big.Int).Uint64\<close> of the Go standard library returns the low 64 bits of the
  magnitude; on a nil receiver it dereferences nil and the runtime panics.
\<close>

definition BigUint64 :: "int \<Rightarrow> uint64" where
  "BigUint64 n = word_of_int \<bar>n\<bar>"

definition Uint64 :: "int option \<Rightarrow> uint64 result" where
  "Uint64 x = (case x of None \<Rightarrow> Panicked NilDereference | Some n \<Rightarrow> Returned (BigUint64 n))"

text \<open>\<open>math.MaxInt64\<close> of the Go standard library, \<open>1<<63 - 1\<close>.\<close>

definition MaxInt64 :: int where
  "MaxInt64 = 2 ^ 63 - 1"

definition AddressLength :: nat where
  "AddressLength = 20"

text \<open>
  Modelled from the spec: \<open>common.BytesToAddress\<close> is not in the source file. The spec
  identifies a precompile by a single-byte address and writes it as the 20-byte account
  address ending in that byte; the definition keeps the last 20 bytes of its argument and
  pads on the left with zeros.
\<close>

definition BytesToAddress :: "byte list \<Rightarrow> Address" where
  "BytesToAddress b =
     (let c = drop (length b - AddressLength) b
      in replicate (AddressLength - length c) 0 @ c)"

subsection \<open>External collaborators\<close>

text \<open>
  The protocol constants of packages \<open>params\<close> and \<open>ethash\<close> and the codecs of packages
  \<open>common\<close>, \<open>types\<close> and \<open>strings\<close> are not part of the source file; the builders take
  them as a parameter.
\<close>

record protocol =
  MaximumExtraDataSize :: uint64
  MinGasLimit :: uint64
  GasLimitBoundDivisor :: uint64
  MaxCodeSize :: uint64
  MinimumDifficulty :: int
  DifficultyBoundDivisor :: int
  DurationLimit :: int
  FrontierBlockReward :: int
  ByzantiumBlockReward :: int
  ConstantinopleBlockReward :: int
  EncodeBig :: "int \<Rightarrow> string"
  EncodeUint64 :: "uint64 \<Rightarrow> string"
  EncodeNonce :: "uint64 \<Rightarrow> byte list"
  ToLower :: "string \<Rightarrow> string"

subsection \<open>The genesis model (core.Genesis, params.ChainConfig)\<close>

text \<open>
  Modelled from the spec: the declarations of \<open>core.Genesis\<close>, \<open>core.GenesisAccount\<close> and
  \<open>params.ChainConfig\<close> are not in the source file. The records hold the fields the
  builders read. The fork blocks, the difficulty and an account's balance are
  \<open>*big.Int\<close> in the code (compared with nil, cast as pointers, or dereferenced). The
  chain id is read through the pointer method \<open>Uint64()\<close> only; it is a pointer here as
  well, so that a nil chain id is a branch of the model, and what is proved of the
  accepted models holds as it stands if the chain id cannot be nil. \<open>Config\<close> itself is
  taken to be present: a genesis model has a configuration. \<open>Alloc\<close> is a Go map, whose
  keys are distinct; it is the list of its entries, which the builders traverse, and the
  theorems hold for every list, in any order.
\<close>

record GenesisAccount =
  ga_Balance :: "int option"
  ga_Nonce :: uint64

record ChainConfig =
  c_ChainID :: "int option"
  c_HomesteadBlock :: "int option"
  c_EIP150Block :: "int option"
  c_EIP155Block :: "int option"
  c_EIP158Block :: "int option"
  c_ByzantiumBlock :: "int option"
  c_ConstantinopleBlock :: "int option"
  c_PetersburgBlock :: "int option"
  c_IstanbulBlock :: "int option"
  c_Ethash :: "unit option"

record Genesis =
  g_Config :: ChainConfig
  g_Nonce :: uint64
  g_Timestamp :: uint64
  g_ExtraData :: "byte list"
  g_GasLimit :: uint64
  g_Difficulty :: "int option"
  g_Mixhash :: Hash
  g_Coinbase :: Address
  g_Alloc :: "(Address \<times> GenesisAccount) list"
  g_ParentHash :: Hash

subsection \<open>Format A: Aleth\<close>

record alethGenesisSpecLinearPricing =
  al_Base :: uint64
  al_Word :: uint64

record alethGenesisSpecBuiltin =
  ab_Name :: string
  ab_StartingBlock :: "int option"
  ab_Linear :: "alethGenesisSpecLinearPricing option"

record alethGenesisSpecAccount =
  aa_Balance :: "int option"
  aa_Nonce :: uint64
  aa_Precompiled :: "alethGenesisSpecBuiltin option"

record alethParams =
  ap_AccountStartNonce :: uint64
  ap_MaximumExtraDataSize :: uint64
  ap_HomesteadForkBlock :: "int option"
  ap_DaoHardforkBlock :: uint64
  ap_EIP150ForkBlock :: "int option"
  ap_EIP158ForkBlock :: "int option"
  ap_ByzantiumForkBlock :: "int option"
  ap_ConstantinopleForkBlock :: "int option"
  ap_ConstantinopleFixForkBlock :: "int option"
  ap_IstanbulForkBlock :: "int option"
  ap_MinGasLimit :: uint64
  ap_MaxGasLimit :: uint64
  ap_TieBreakingGas :: bool
  ap_GasLimitBoundDivisor :: uint64
  ap_MinimumDifficulty :: "int option"
  ap_DifficultyBoundDivisor :: "int option"
  ap_DurationLimit :: "int option"
  ap_BlockReward :: "int option"
  ap_NetworkID :: uint64
  ap_ChainID :: uint64
  ap_AllowFutureBlocks :: bool

record alethGenesis =
  ag_Nonce :: "byte list"
  ag_Difficulty :: "int option"
  ag_MixHash :: Hash
  ag_Author :: Address
  ag_Timestamp :: uint64
  ag_ParentHash :: Hash
  ag_ExtraData :: "byte list"
  ag_GasLimit :: uint64

record alethGenesisSpec =
  a_SealEngine :: string
  a_Params :: alethParams
  a_Genesis :: alethGenesis
  a_Accounts :: "(Address \<rightharpoonup> alethGenesisSpecAccount) option"

text \<open>The zero values \<open>&alethGenesisSpecAccount{}\<close> and \<open>alethGenesisSpecLinearPricing{}\<close>.\<close>

definition alethGenesisSpecAccount_zero :: alethGenesisSpecAccount where
  "alethGenesisSpecAccount_zero = \<lparr>aa_Balance = None, aa_Nonce = 0, aa_Precompiled = None\<rparr>"

text \<open>
  \<open>func (spec *alethGenesisSpec) setPrecompile(address byte, data *alethGenesisSpecBuiltin)\<close>:
  create the map when it is nil, create the account when the address has none, then
  assign the \<open>Precompiled\<close> field of the account.
\<close>

definition alethSetPrecompile ::
  "byte \<Rightarrow> alethGenesisSpecBuiltin option \<Rightarrow> alethGenesisSpec \<Rightarrow> alethGenesisSpec" where
  "alethSetPrecompile address data spec =
     (let accounts = (case a_Accounts spec of None \<Rightarrow> Map.empty | Some m \<Rightarrow> m);
          addr = BytesToAddress [address];
          accounts = (case accounts addr of
                        None \<Rightarrow> accounts(addr \<mapsto> alethGenesisSpecAccount_zero)
                      | Some _ \<Rightarrow> accounts);
          accounts = (case accounts addr of
                        None \<Rightarrow> accounts
                      | Some a \<Rightarrow> accounts(addr \<mapsto> a\<lparr>aa_Precompiled := data\<rparr>))
      in spec\<lparr>a_Accounts := Some accounts\<rparr>)"

text \<open>
  \<open>func (spec *alethGenesisSpec) setAccount(address common.Address, account core.GenesisAccount)\<close>.
\<close>

definition alethSetAccount ::
  "Address \<Rightarrow> GenesisAccount \<Rightarrow> alethGenesisSpec \<Rightarrow> alethGenesisSpec" where
  "alethSetAccount address account spec =
     (let accounts = (case a_Accounts spec of None \<Rightarrow> Map.empty | Some m \<Rightarrow> m);
          a = (case accounts address of None \<Rightarrow> alethGenesisSpecAccount_zero | Some a \<Rightarrow> a);
          a = a\<lparr>aa_Balance := ga_Balance account\<rparr>;
          a = a\<lparr>aa_Nonce := ga_Nonce account\<rparr>
      in spec\<lparr>a_Accounts := Some (accounts(address \<mapsto> a))\<rparr>)"

text \<open>The loop \<open>for address, account := range genesis.Alloc { spec.setAccount(address, account) }\<close>.\<close>

fun alethSetAccounts ::
  "(Address \<times> GenesisAccount) list \<Rightarrow> alethGenesisSpec \<Rightarrow> alethGenesisSpec" where
  "alethSetAccounts [] spec = spec"
| "alethSetAccounts ((address, account) # rest) spec =
     alethSetAccounts rest (alethSetAccount address account spec)"

text \<open>The parameter block and the genesis header, lines 103 to 155 of the source.\<close>

definition alethParamsOf :: "protocol \<Rightarrow> ChainConfig \<Rightarrow> uint64 \<Rightarrow> alethParams" where
  "alethParamsOf P cfg chainID =
     \<lparr>ap_AccountStartNonce = 0,
      ap_MaximumExtraDataSize = MaximumExtraDataSize P,
      ap_HomesteadForkBlock =
        (if c_HomesteadBlock cfg \<noteq> None then c_HomesteadBlock cfg else None),
      ap_DaoHardforkBlock = 0,
      ap_EIP150ForkBlock =
        (if c_EIP150Block cfg \<noteq> None then c_EIP150Block cfg else None),
      ap_EIP158ForkBlock =
        (if c_EIP158Block cfg \<noteq> None then c_EIP158Block cfg else None),
      ap_ByzantiumForkBlock =
        (if c_ByzantiumBlock cfg \<noteq> None then c_ByzantiumBlock cfg else None),
      ap_ConstantinopleForkBlock =
        (if c_ConstantinopleBlock cfg \<noteq> None then c_ConstantinopleBlock cfg else None),
      ap_ConstantinopleFixForkBlock =
        (if c_PetersburgBlock cfg \<noteq> None then c_PetersburgBlock cfg else None),
      ap_IstanbulForkBlock =
        (if c_IstanbulBlock cfg \<noteq> None then c_IstanbulBlock cfg else None),
      ap_MinGasLimit = MinGasLimit P,
      ap_MaxGasLimit = word_of_int MaxInt64,
      ap_TieBreakingGas = False,
      ap_GasLimitBoundDivisor = GasLimitBoundDivisor P,
      ap_MinimumDifficulty = Some (MinimumDifficulty P),
      ap_DifficultyBoundDivisor = Some (DifficultyBoundDivisor P),
      ap_DurationLimit = Some (DurationLimit P),
      ap_BlockReward = Some (FrontierBlockReward P),
      ap_NetworkID = chainID,
      ap_ChainID = chainID,
      ap_AllowFutureBlocks = False\<rparr>"

definition alethGenesisOf :: "protocol \<Rightarrow> Genesis \<Rightarrow> alethGenesis" where
  "alethGenesisOf P genesis =
     \<lparr>ag_Nonce = EncodeNonce P (g_Nonce genesis),
      ag_Difficulty = g_Difficulty genesis,
      ag_MixHash = g_Mixhash genesis,
      ag_Author = g_Coinbase genesis,
      ag_Timestamp = g_Timestamp genesis,
      ag_ParentHash = g_ParentHash genesis,
      ag_ExtraData = g_ExtraData genesis,
      ag_GasLimit = g_GasLimit genesis\<rparr>"

text \<open>The four precompiles set unconditionally, lines 161 to 168.\<close>

definition alethFrontierPrecompiles :: "alethGenesisSpec \<Rightarrow> alethGenesisSpec" where
  "alethFrontierPrecompiles spec =
     (let spec = alethSetPrecompile 1 (Some \<lparr>ab_Name = ''ecrecover'', ab_StartingBlock = None,
                   ab_Linear = Some \<lparr>al_Base = 3000, al_Word = 0\<rparr>\<rparr>) spec;
          spec = alethSetPrecompile 2 (Some \<lparr>ab_Name = ''sha256'', ab_StartingBlock = None,
                   ab_Linear = Some \<lparr>al_Base = 60, al_Word = 12\<rparr>\<rparr>) spec;
          spec = alethSetPrecompile 3 (Some \<lparr>ab_Name = ''ripemd160'', ab_StartingBlock = None,
                   ab_Linear = Some \<lparr>al_Base = 600, al_Word = 120\<rparr>\<rparr>) spec
      in alethSetPrecompile 4 (Some \<lparr>ab_Name = ''identity'', ab_StartingBlock = None,
                   ab_Linear = Some \<lparr>al_Base = 15, al_Word = 3\<rparr>\<rparr>) spec)"

text \<open>The body of \<open>if genesis.Config.ByzantiumBlock != nil\<close>, lines 170 to 179.\<close>

definition alethByzantiumPrecompiles :: "int option \<Rightarrow> alethGenesisSpec \<Rightarrow> alethGenesisSpec" where
  "alethByzantiumPrecompiles byzantium spec =
     (let spec = alethSetPrecompile 5 (Some \<lparr>ab_Name = ''modexp'',
                   ab_StartingBlock = byzantium, ab_Linear = None\<rparr>) spec;
          spec = alethSetPrecompile 6 (Some \<lparr>ab_Name = ''alt_bn128_G1_add'',
                   ab_StartingBlock = byzantium,
                   ab_Linear = Some \<lparr>al_Base = 500, al_Word = 0\<rparr>\<rparr>) spec;
          spec = alethSetPrecompile 7 (Some \<lparr>ab_Name = ''alt_bn128_G1_mul'',
                   ab_StartingBlock = byzantium,
                   ab_Linear = Some \<lparr>al_Base = 40000, al_Word = 0\<rparr>\<rparr>) spec
      in alethSetPrecompile 8 (Some \<lparr>ab_Name = ''alt_bn128_pairing_product'',
                   ab_StartingBlock = byzantium, ab_Linear = None\<rparr>) spec)"

text \<open>The three calls after the dependency check, lines 185 to 196.\<close>

definition alethIstanbulPrecompiles ::
  "int option \<Rightarrow> int option \<Rightarrow> alethGenesisSpec \<Rightarrow> alethGenesisSpec" where
  "alethIstanbulPrecompiles byzantium istanbul spec =
     (let spec = alethSetPrecompile 6 (Some \<lparr>ab_Name = ''alt_bn128_G1_add'',
                   ab_StartingBlock = byzantium, ab_Linear = None\<rparr>) spec;
          spec = alethSetPrecompile 7 (Some \<lparr>ab_Name = ''alt_bn128_G1_mul'',
                   ab_StartingBlock = byzantium, ab_Linear = None\<rparr>) spec
      in alethSetPrecompile 9 (Some \<lparr>ab_Name = ''blake2_compression'',
                   ab_StartingBlock = istanbul, ab_Linear = None\<rparr>) spec)"

text \<open>
  \<open>func newAlethGenesisSpec(network string, genesis *core.Genesis) (*alethGenesisSpec, error)\<close>.
  \<open>genesis.Config.ChainID.Uint64()\<close> on line 137 is the only call that can panic.
\<close>

definition newAlethGenesisSpec :: "protocol \<Rightarrow> string \<Rightarrow> Genesis \<Rightarrow> alethGenesisSpec result" where
  "newAlethGenesisSpec P network genesis =
     (let cfg = g_Config genesis in
      if c_Ethash cfg = None then Failed UnsupportedConsensusEngine
      else
        result_bind (Uint64 (c_ChainID cfg)) (\<lambda>chainID.
          let spec = \<lparr>a_SealEngine = ''Ethash'',
                      a_Params = alethParamsOf P cfg chainID,
                      a_Genesis = alethGenesisOf P genesis,
                      a_Accounts = None\<rparr>;
              spec = alethSetAccounts (g_Alloc genesis) spec;
              spec = alethFrontierPrecompiles spec;
              spec = (if c_ByzantiumBlock cfg \<noteq> None
                      then alethByzantiumPrecompiles (c_ByzantiumBlock cfg) spec else spec)
          in if c_IstanbulBlock cfg \<noteq> None
             then (if c_ByzantiumBlock cfg = None then Failed InvalidForkDependency
                   else Returned (alethIstanbulPrecompiles (c_ByzantiumBlock cfg)
                                    (c_IstanbulBlock cfg) spec))
             else Returned spec))"

subsection \<open>Format B: Parity\<close>

record parityChainSpecLinearPricing =
  plin_Base :: uint64
  plin_Word :: uint64

record parityChainSpecModExpPricing =
  pmod_Divisor :: uint64

record parityChainSpecAltBnConstOperationPricing =
  pconst_Price :: uint64

record parityChainSepcAltBnPairingPricing =
  ppair_Base :: uint64
  ppair_Pair :: uint64

record parityChainSpecBlakePricing =
  pblake_GasPerRound :: uint64

record parityChainSpecPricing =
  ppr_Linear :: "parityChainSpecLinearPricing option"
  ppr_ModExp :: "parityChainSpecModExpPricing option"
  ppr_AltBnPairing :: "parityChainSepcAltBnPairingPricing option"
  ppr_Blake2F :: "parityChainSpecBlakePricing option"

record parityChainSpecAlternativePrice =
  palt_AltBnConstOperationPrice :: "parityChainSpecAltBnConstOperationPricing option"
  palt_AltBnPairingPrice :: "parityChainSepcAltBnPairingPricing option"

record parityChainSpecVersionedPricing =
  pver_Price :: "parityChainSpecAlternativePrice option"
  pver_Info :: string

text \<open>
  \<open>Pricing interface{}\<close> holds either a \<open>*parityChainSpecPricing\<close> or a
  \<open>map[*common.Big]*parityChainSpecVersionedPricing\<close>. The keys of that map are pointers,
  so the two entries of a map literal never collide, whatever numbers they point to: the
  map is the list of its entries, each key being the number pointed to.
\<close>

datatype parityPricing =
  SinglePricing parityChainSpecPricing
| VersionedPricing "(int option \<times> parityChainSpecVersionedPricing) list"

record parityChainSpecBuiltin =
  pbi_Name :: string
  pbi_Pricing :: "parityPricing option"
  pbi_ActivateAt :: "int option"

record parityChainSpecAccount =
  pac_Balance :: int
  pac_Nonce :: uint64
  pac_Builtin :: "parityChainSpecBuiltin option"

text \<open>\<open>Engine.Ethash.Params\<close>.\<close>

record parityEthashParams =
  pe_MinimumDifficulty :: "int option"
  pe_DifficultyBoundDivisor :: "int option"
  pe_DurationLimit :: "int option"
  pe_BlockReward :: "(string \<rightharpoonup> string) option"
  pe_DifficultyBombDelays :: "(string \<rightharpoonup> string) option"
  pe_HomesteadTransition :: uint64
  pe_EIP100bTransition :: uint64

record parityParams =
  pp_AccountStartNonce :: uint64
  pp_MaximumExtraDataSize :: uint64
  pp_MinGasLimit :: uint64
  pp_GasLimitBoundDivisor :: uint64
  pp_NetworkID :: uint64
  pp_ChainID :: uint64
  pp_MaxCodeSize :: uint64
  pp_MaxCodeSizeTransition :: uint64
  pp_EIP98Transition :: uint64
  pp_EIP150Transition :: uint64
  pp_EIP160Transition :: uint64
  pp_EIP161abcTransition :: uint64
  pp_EIP161dTransition :: uint64
  pp_EIP155Transition :: uint64
  pp_EIP140Transition :: uint64
  pp_EIP211Transition :: uint64
  pp_EIP214Transition :: uint64
  pp_EIP658Transition :: uint64
  pp_EIP145Transition :: uint64
  pp_EIP1014Transition :: uint64
  pp_EIP1052Transition :: uint64
  pp_EIP1283Transition :: uint64
  pp_EIP1283DisableTransition :: uint64
  pp_EIP1283ReenableTransition :: uint64
  pp_EIP1344Transition :: uint64
  pp_EIP1884Transition :: uint64
  pp_EIP2028Transition :: uint64

text \<open>\<open>Genesis\<close>, with \<open>Genesis.Seal.Ethereum.Nonce\<close> and \<open>Genesis.Seal.Ethereum.MixHash\<close>.\<close>

record parityGenesis =
  pg_Nonce :: "byte list"
  pg_MixHash :: "byte list"
  pg_Difficulty :: "int option"
  pg_Author :: Address
  pg_Timestamp :: uint64
  pg_ParentHash :: Hash
  pg_ExtraData :: "byte list"
  pg_GasLimit :: uint64

record parityChainSpec =
  p_Name :: string
  p_Datadir :: string
  p_Engine :: parityEthashParams
  p_Params :: parityParams
  p_Genesis :: parityGenesis
  p_Nodes :: "string list"
  p_Accounts :: "(Address \<rightharpoonup> parityChainSpecAccount) option"

text \<open>The zero values of the structs, as Go initialises them.\<close>

definition parityChainSpecAccount_zero :: parityChainSpecAccount where
  "parityChainSpecAccount_zero = \<lparr>pac_Balance = 0, pac_Nonce = 0, pac_Builtin = None\<rparr>"

definition parityEthashParams_zero :: parityEthashParams where
  "parityEthashParams_zero =
     \<lparr>pe_MinimumDifficulty = None, pe_DifficultyBoundDivisor = None, pe_DurationLimit = None,
      pe_BlockReward = None, pe_DifficultyBombDelays = None,
      pe_HomesteadTransition = 0, pe_EIP100bTransition = 0\<rparr>"

definition parityParams_zero :: parityParams where
  "parityParams_zero =
     \<lparr>pp_AccountStartNonce = 0, pp_MaximumExtraDataSize = 0, pp_MinGasLimit = 0,
      pp_GasLimitBoundDivisor = 0, pp_NetworkID = 0, pp_ChainID = 0, pp_MaxCodeSize = 0,
      pp_MaxCodeSizeTransition = 0, pp_EIP98Transition = 0, pp_EIP150Transition = 0,
      pp_EIP160Transition = 0, pp_EIP161abcTransition = 0, pp_EIP161dTransition = 0,
      pp_EIP155Transition = 0, pp_EIP140Transition = 0, pp_EIP211Transition = 0,
      pp_EIP214Transition = 0, pp_EIP658Transition = 0, pp_EIP145Transition = 0,
      pp_EIP1014Transition = 0, pp_EIP1052Transition = 0, pp_EIP1283Transition = 0,
      pp_EIP1283DisableTransition = 0, pp_EIP1283ReenableTransition = 0,
      pp_EIP1344Transition = 0, pp_EIP1884Transition = 0, pp_EIP2028Transition = 0\<rparr>"

definition parityGenesis_zero :: parityGenesis where
  "parityGenesis_zero =
     \<lparr>pg_Nonce = replicate 8 0, pg_MixHash = [], pg_Difficulty = None,
      pg_Author = replicate AddressLength 0, pg_Timestamp = 0,
      pg_ParentHash = replicate 32 0, pg_ExtraData = [], pg_GasLimit = 0\<rparr>"

text \<open>
  \<open>func (spec *parityChainSpec) setPrecompile(address byte, data *parityChainSpecBuiltin)\<close>.
\<close>

definition paritySetPrecompile ::
  "byte \<Rightarrow> parityChainSpecBuiltin option \<Rightarrow> parityChainSpec \<Rightarrow> parityChainSpec" where
  "paritySetPrecompile address data spec =
     (let accounts = (case p_Accounts spec of None \<Rightarrow> Map.empty | Some m \<Rightarrow> m);
          a = BytesToAddress [address];
          accounts = (case accounts a of
                        None \<Rightarrow> accounts(a \<mapsto> parityChainSpecAccount_zero)
                      | Some _ \<Rightarrow> accounts);
          accounts = (case accounts a of
                        None \<Rightarrow> accounts
                      | Some acc \<Rightarrow> accounts(a \<mapsto> acc\<lparr>pac_Builtin := data\<rparr>))
      in spec\<lparr>p_Accounts := Some accounts\<rparr>)"

text \<open>
  An assignment \<open>m[key] = value\<close> to a string-keyed map: the runtime panics when the map
  is nil.
\<close>

definition mapAssign ::
  "(string \<rightharpoonup> string) option \<Rightarrow> string \<Rightarrow> string \<Rightarrow> (string \<rightharpoonup> string) option result" where
  "mapAssign m key v =
     (case m of None \<Rightarrow> Panicked NilMapAssignment | Some f \<Rightarrow> Returned (Some (f(key \<mapsto> v))))"

text \<open>
  \<open>func (spec *parityChainSpec) setByzantium(num *big.Int)\<close> and its three siblings. Each
  is called with a pointer that its caller has compared with nil, so \<open>num\<close> is the number
  pointed to.
\<close>

definition setByzantium :: "protocol \<Rightarrow> int \<Rightarrow> parityChainSpec \<Rightarrow> parityChainSpec result" where
  "setByzantium P num spec =
     result_bind (mapAssign (pe_BlockReward (p_Engine spec)) (EncodeBig P num)
                    (EncodeBig P (ByzantiumBlockReward P))) (\<lambda>reward.
     let spec = spec\<lparr>p_Engine := (p_Engine spec)\<lparr>pe_BlockReward := reward\<rparr>\<rparr> in
     result_bind (mapAssign (pe_DifficultyBombDelays (p_Engine spec)) (EncodeBig P num)
                    (EncodeUint64 P 3000000)) (\<lambda>delays.
     let spec = spec\<lparr>p_Engine := (p_Engine spec)\<lparr>pe_DifficultyBombDelays := delays\<rparr>\<rparr>;
         n = BigUint64 num;
         spec = spec\<lparr>p_Engine := (p_Engine spec)\<lparr>pe_EIP100bTransition := n\<rparr>\<rparr>;
         spec = spec\<lparr>p_Params := (p_Params spec)\<lparr>pp_EIP140Transition := n\<rparr>\<rparr>;
         spec = spec\<lparr>p_Params := (p_Params spec)\<lparr>pp_EIP211Transition := n\<rparr>\<rparr>;
         spec = spec\<lparr>p_Params := (p_Params spec)\<lparr>pp_EIP214Transition := n\<rparr>\<rparr>;
         spec = spec\<lparr>p_Params := (p_Params spec)\<lparr>pp_EIP658Transition := n\<rparr>\<rparr>
     in Returned spec))"

definition setConstantinople :: "protocol \<Rightarrow> int \<Rightarrow> parityChainSpec \<Rightarrow> parityChainSpec result" where
  "setConstantinople P num spec =
     result_bind (mapAssign (pe_BlockReward (p_Engine spec)) (EncodeBig P num)
                    (EncodeBig P (ConstantinopleBlockReward P))) (\<lambda>reward.
     let spec = spec\<lparr>p_Engine := (p_Engine spec)\<lparr>pe_BlockReward := reward\<rparr>\<rparr> in
     result_bind (mapAssign (pe_DifficultyBombDelays (p_Engine spec)) (EncodeBig P num)
                    (EncodeUint64 P 2000000)) (\<lambda>delays.
     let spec = spec\<lparr>p_Engine := (p_Engine spec)\<lparr>pe_DifficultyBombDelays := delays\<rparr>\<rparr>;
         n = BigUint64 num;
         spec = spec\<lparr>p_Params := (p_Params spec)\<lparr>pp_EIP145Transition := n\<rparr>\<rparr>;
         spec = spec\<lparr>p_Params := (p_Params spec)\<lparr>pp_EIP1014Transition := n\<rparr>\<rparr>;
         spec = spec\<lparr>p_Params := (p_Params spec)\<lparr>pp_EIP1052Transition := n\<rparr>\<rparr>;
         spec = spec\<lparr>p_Params := (p_Params spec)\<lparr>pp_EIP1283Transition := n\<rparr>\<rparr>
     in Returned spec))"

definition setConstantinopleFix :: "int \<Rightarrow> parityChainSpec \<Rightarrow> parityChainSpec" where
  "setConstantinopleFix num spec =
     spec\<lparr>p_Params := (p_Params spec)\<lparr>pp_EIP1283DisableTransition := BigUint64 num\<rparr>\<rparr>"

definition setIstanbul :: "int \<Rightarrow> parityChainSpec \<Rightarrow> parityChainSpec" where
  "setIstanbul num spec =
     (let spec = spec\<lparr>p_Params := (p_Params spec)\<lparr>pp_EIP1344Transition := BigUint64 num\<rparr>\<rparr>;
          spec = spec\<lparr>p_Params := (p_Params spec)\<lparr>pp_EIP1884Transition := BigUint64 num\<rparr>\<rparr>;
          spec = spec\<lparr>p_Params := (p_Params spec)\<lparr>pp_EIP2028Transition := BigUint64 num\<rparr>\<rparr>
      in spec\<lparr>p_Params := (p_Params spec)\<lparr>pp_EIP1283ReenableTransition := BigUint64 num\<rparr>\<rparr>)"

text \<open>
  Lines 376 to 396 of \<open>newParityChainSpec\<close>: the two schedules are created empty, the
  reward schedule receives its entry for \<open>"0x0"\<close>, and the Homestead, EIP150, EIP155 and
  EIP158 blocks are converted without a nil check.
\<close>

definition parityEarlyForks ::
  "protocol \<Rightarrow> ChainConfig \<Rightarrow> parityChainSpec \<Rightarrow> parityChainSpec result" where
  "parityEarlyForks P cfg spec =
     (let spec = spec\<lparr>p_Engine := (p_Engine spec)\<lparr>pe_BlockReward := Some Map.empty\<rparr>\<rparr>;
          spec = spec\<lparr>p_Engine := (p_Engine spec)\<lparr>pe_DifficultyBombDelays := Some Map.empty\<rparr>\<rparr>;
          spec = spec\<lparr>p_Engine := (p_Engine spec)
                        \<lparr>pe_MinimumDifficulty := Some (MinimumDifficulty P)\<rparr>\<rparr>;
          spec = spec\<lparr>p_Engine := (p_Engine spec)
                        \<lparr>pe_DifficultyBoundDivisor := Some (DifficultyBoundDivisor P)\<rparr>\<rparr>;
          spec = spec\<lparr>p_Engine := (p_Engine spec)\<lparr>pe_DurationLimit := Some (DurationLimit P)\<rparr>\<rparr>
      in
      result_bind (mapAssign (pe_BlockReward (p_Engine spec)) ''0x0''
                     (EncodeBig P (FrontierBlockReward P))) (\<lambda>reward.
      let spec = spec\<lparr>p_Engine := (p_Engine spec)\<lparr>pe_BlockReward := reward\<rparr>\<rparr> in
      result_bind (Uint64 (c_HomesteadBlock cfg)) (\<lambda>n.
      let spec = spec\<lparr>p_Engine := (p_Engine spec)\<lparr>pe_HomesteadTransition := n\<rparr>\<rparr> in
      result_bind (Uint64 (c_EIP150Block cfg)) (\<lambda>n.
      let spec = spec\<lparr>p_Params := (p_Params spec)\<lparr>pp_EIP150Transition := n\<rparr>\<rparr> in
      result_bind (Uint64 (c_EIP155Block cfg)) (\<lambda>n.
      let spec = spec\<lparr>p_Params := (p_Params spec)\<lparr>pp_EIP155Transition := n\<rparr>\<rparr> in
      result_bind (Uint64 (c_EIP155Block cfg)) (\<lambda>n.
      let spec = spec\<lparr>p_Params := (p_Params spec)\<lparr>pp_EIP160Transition := n\<rparr>\<rparr> in
      result_bind (Uint64 (c_EIP158Block cfg)) (\<lambda>n.
      let spec = spec\<lparr>p_Params := (p_Params spec)\<lparr>pp_EIP161abcTransition := n\<rparr>\<rparr> in
      result_bind (Uint64 (c_EIP158Block cfg)) (\<lambda>n.
      Returned (spec\<lparr>p_Params := (p_Params spec)\<lparr>pp_EIP161dTransition := n\<rparr>\<rparr>)))))))))"

text \<open>
  Lines 398 to 413: the four later forks are applied, each when its block is not nil.
\<close>

definition parityLaterForks ::
  "protocol \<Rightarrow> ChainConfig \<Rightarrow> parityChainSpec \<Rightarrow> parityChainSpec result" where
  "parityLaterForks P cfg spec =
     result_bind (case c_ByzantiumBlock cfg of
                    None \<Rightarrow> Returned spec | Some num \<Rightarrow> setByzantium P num spec) (\<lambda>spec.
     result_bind (case c_ConstantinopleBlock cfg of
                    None \<Rightarrow> Returned spec | Some num \<Rightarrow> setConstantinople P num spec) (\<lambda>spec.
     let spec = (case c_PetersburgBlock cfg of
                   None \<Rightarrow> spec | Some num \<Rightarrow> setConstantinopleFix num spec);
         spec = (case c_IstanbulBlock cfg of
                   None \<Rightarrow> spec | Some num \<Rightarrow> setIstanbul num spec)
     in Returned spec))"

definition parityForkSchedule ::
  "protocol \<Rightarrow> ChainConfig \<Rightarrow> parityChainSpec \<Rightarrow> parityChainSpec result" where
  "parityForkSchedule P cfg spec =
     result_bind (parityEarlyForks P cfg spec) (parityLaterForks P cfg)"

text \<open>
  Lines 414 to 424: the constant parameters. \<open>genesis.Config.ChainID.Uint64()\<close> is
  called twice, without a nil check.
\<close>

definition parityParamsOf ::
  "protocol \<Rightarrow> ChainConfig \<Rightarrow> parityChainSpec \<Rightarrow> parityChainSpec result" where
  "parityParamsOf P cfg spec =
     (let spec = spec\<lparr>p_Params := (p_Params spec)
                        \<lparr>pp_MaximumExtraDataSize := MaximumExtraDataSize P\<rparr>\<rparr>;
          spec = spec\<lparr>p_Params := (p_Params spec)\<lparr>pp_MinGasLimit := MinGasLimit P\<rparr>\<rparr>;
          spec = spec\<lparr>p_Params := (p_Params spec)
                        \<lparr>pp_GasLimitBoundDivisor := GasLimitBoundDivisor P\<rparr>\<rparr>
      in
      result_bind (Uint64 (c_ChainID cfg)) (\<lambda>n.
      let spec = spec\<lparr>p_Params := (p_Params spec)\<lparr>pp_NetworkID := n\<rparr>\<rparr> in
      result_bind (Uint64 (c_ChainID cfg)) (\<lambda>n.
      let spec = spec\<lparr>p_Params := (p_Params spec)\<lparr>pp_ChainID := n\<rparr>\<rparr>;
          spec = spec\<lparr>p_Params := (p_Params spec)\<lparr>pp_MaxCodeSize := MaxCodeSize P\<rparr>\<rparr>;
          spec = spec\<lparr>p_Params := (p_Params spec)\<lparr>pp_MaxCodeSizeTransition := 0\<rparr>\<rparr>;
          spec = spec\<lparr>p_Params := (p_Params spec)
                        \<lparr>pp_EIP98Transition := word_of_int MaxInt64\<rparr>\<rparr>
      in Returned spec)))"

text \<open>Lines 426 to 433: the genesis header.\<close>

definition parityGenesisOf :: "protocol \<Rightarrow> Genesis \<Rightarrow> parityGenesis" where
  "parityGenesisOf P genesis =
     \<lparr>pg_Nonce = EncodeNonce P (g_Nonce genesis),
      pg_MixHash = g_Mixhash genesis,
      pg_Difficulty = g_Difficulty genesis,
      pg_Author = g_Coinbase genesis,
      pg_Timestamp = g_Timestamp genesis,
      pg_ParentHash = g_ParentHash genesis,
      pg_ExtraData = g_ExtraData genesis,
      pg_GasLimit = g_GasLimit genesis\<rparr>"

text \<open>
  The loop of lines 436 to 443. \<open>*account.Balance\<close> dereferences the balance: the runtime
  panics when it is nil. \<open>spec.Accounts\<close> has been made on line 435.
\<close>

fun paritySetAccounts ::
  "(Address \<times> GenesisAccount) list \<Rightarrow> (Address \<rightharpoonup> parityChainSpecAccount)
     \<Rightarrow> (Address \<rightharpoonup> parityChainSpecAccount) result" where
  "paritySetAccounts [] accounts = Returned accounts"
| "paritySetAccounts ((address, account) # rest) accounts =
     (case ga_Balance account of
        None \<Rightarrow> Panicked NilDereference
      | Some bal \<Rightarrow>
          paritySetAccounts rest
            (accounts(address \<mapsto> \<lparr>pac_Balance = bal, pac_Nonce = ga_Nonce account,
                                  pac_Builtin = None\<rparr>)))"

definition parityLinear :: "uint64 \<Rightarrow> uint64 \<Rightarrow> parityPricing option" where
  "parityLinear base word =
     Some (SinglePricing \<lparr>ppr_Linear = Some \<lparr>plin_Base = base, plin_Word = word\<rparr>,
                          ppr_ModExp = None, ppr_AltBnPairing = None, ppr_Blake2F = None\<rparr>)"

text \<open>The four precompiles set unconditionally, lines 444 to 455.\<close>

definition parityFrontierPrecompiles :: "parityChainSpec \<Rightarrow> parityChainSpec" where
  "parityFrontierPrecompiles spec =
     (let spec = paritySetPrecompile 1 (Some \<lparr>pbi_Name = ''ecrecover'',
                   pbi_Pricing = parityLinear 3000 0, pbi_ActivateAt = None\<rparr>) spec;
          spec = paritySetPrecompile 2 (Some \<lparr>pbi_Name = ''sha256'',
                   pbi_Pricing = parityLinear 60 12, pbi_ActivateAt = None\<rparr>) spec;
          spec = paritySetPrecompile 3 (Some \<lparr>pbi_Name = ''ripemd160'',
                   pbi_Pricing = parityLinear 600 120, pbi_ActivateAt = None\<rparr>) spec
      in paritySetPrecompile 4 (Some \<lparr>pbi_Name = ''identity'',
                   pbi_Pricing = parityLinear 15 3, pbi_ActivateAt = None\<rparr>) spec)"

text \<open>The body of \<open>if genesis.Config.ByzantiumBlock != nil\<close>, lines 457 to 484.\<close>

definition parityByzantiumPrecompiles :: "int option \<Rightarrow> parityChainSpec \<Rightarrow> parityChainSpec" where
  "parityByzantiumPrecompiles byzantium spec =
     (let spec = paritySetPrecompile 5 (Some \<lparr>pbi_Name = ''modexp'',
                   pbi_Pricing = Some (SinglePricing \<lparr>ppr_Linear = None,
                      ppr_ModExp = Some \<lparr>pmod_Divisor = 20\<rparr>,
                      ppr_AltBnPairing = None, ppr_Blake2F = None\<rparr>),
                   pbi_ActivateAt = byzantium\<rparr>) spec;
          spec = paritySetPrecompile 6 (Some \<lparr>pbi_Name = ''alt_bn128_add'',
                   pbi_Pricing = parityLinear 500 0, pbi_ActivateAt = byzantium\<rparr>) spec;
          spec = paritySetPrecompile 7 (Some \<lparr>pbi_Name = ''alt_bn128_mul'',
                   pbi_Pricing = parityLinear 40000 0, pbi_ActivateAt = byzantium\<rparr>) spec
      in paritySetPrecompile 8 (Some \<lparr>pbi_Name = ''alt_bn128_pairing'',
                   pbi_Pricing = Some (SinglePricing \<lparr>ppr_Linear = None, ppr_ModExp = None,
                      ppr_AltBnPairing = Some \<lparr>ppair_Base = 100000, ppair_Pair = 80000\<rparr>,
                      ppr_Blake2F = None\<rparr>),
                   pbi_ActivateAt = byzantium\<rparr>) spec)"

text \<open>
  The versioned pricing tables of lines 493 to 504, 509 to 520 and 525 to 536: one entry
  keyed by \<open>big.NewInt(0)\<close>, one keyed by the Istanbul block.
\<close>

definition constOperationPrices :: "int option \<Rightarrow> uint64 \<Rightarrow> uint64 \<Rightarrow> parityPricing option" where
  "constOperationPrices istanbul before after =
     Some (VersionedPricing
       [(Some 0, \<lparr>pver_Price = Some \<lparr>palt_AltBnConstOperationPrice = Some \<lparr>pconst_Price = before\<rparr>,
                                      palt_AltBnPairingPrice = None\<rparr>, pver_Info = []\<rparr>),
        (istanbul, \<lparr>pver_Price = Some \<lparr>palt_AltBnConstOperationPrice = Some \<lparr>pconst_Price = after\<rparr>,
                                        palt_AltBnPairingPrice = None\<rparr>, pver_Info = []\<rparr>)])"

definition pairingPrices :: "int option \<Rightarrow> parityPricing option" where
  "pairingPrices istanbul =
     Some (VersionedPricing
       [(Some 0, \<lparr>pver_Price = Some \<lparr>palt_AltBnConstOperationPrice = None,
                    palt_AltBnPairingPrice = Some \<lparr>ppair_Base = 100000, ppair_Pair = 80000\<rparr>\<rparr>,
                  pver_Info = []\<rparr>),
        (istanbul, \<lparr>pver_Price = Some \<lparr>palt_AltBnConstOperationPrice = None,
                      palt_AltBnPairingPrice = Some \<lparr>ppair_Base = 45000, ppair_Pair = 34000\<rparr>\<rparr>,
                    pver_Info = []\<rparr>)])"

text \<open>The four calls after the dependency check, lines 490 to 544.\<close>

definition parityIstanbulPrecompiles ::
  "int option \<Rightarrow> int option \<Rightarrow> parityChainSpec \<Rightarrow> parityChainSpec" where
  "parityIstanbulPrecompiles byzantium istanbul spec =
     (let spec = paritySetPrecompile 6 (Some \<lparr>pbi_Name = ''alt_bn128_add'',
                   pbi_Pricing = constOperationPrices istanbul 500 150,
                   pbi_ActivateAt = byzantium\<rparr>) spec;
          spec = paritySetPrecompile 7 (Some \<lparr>pbi_Name = ''alt_bn128_mul'',
                   pbi_Pricing = constOperationPrices istanbul 40000 6000,
                   pbi_ActivateAt = byzantium\<rparr>) spec;
          spec = paritySetPrecompile 8 (Some \<lparr>pbi_Name = ''alt_bn128_pairing'',
                   pbi_Pricing = pairingPrices istanbul,
                   pbi_ActivateAt = byzantium\<rparr>) spec
      in paritySetPrecompile 9 (Some \<lparr>pbi_Name = ''blake2_f'',
                   pbi_Pricing = Some (SinglePricing \<lparr>ppr_Linear = None, ppr_ModExp = None,
                      ppr_AltBnPairing = None,
                      ppr_Blake2F = Some \<lparr>pblake_GasPerRound = 1\<rparr>\<rparr>),
                   pbi_ActivateAt = istanbul\<rparr>) spec)"

text \<open>
  The composite literal \<open>&parityChainSpec{Name: network, Nodes: bootnodes, Datadir:
  strings.ToLower(network)}\<close> of lines 371 to 375; the other fields have their zero values.
\<close>

definition parityChainSpec_new :: "protocol \<Rightarrow> string \<Rightarrow> string list \<Rightarrow> parityChainSpec" where
  "parityChainSpec_new P network bootnodes =
     \<lparr>p_Name = network, p_Datadir = ToLower P network,
      p_Engine = parityEthashParams_zero, p_Params = parityParams_zero,
      p_Genesis = parityGenesis_zero, p_Nodes = bootnodes, p_Accounts = None\<rparr>"

text \<open>
  \<open>func newParityChainSpec(network string, genesis *core.Genesis, bootnodes []string)
  (*parityChainSpec, error)\<close>.
\<close>

definition newParityChainSpec ::
  "protocol \<Rightarrow> string \<Rightarrow> Genesis \<Rightarrow> string list \<Rightarrow> parityChainSpec result" where
  "newParityChainSpec P network genesis bootnodes =
     (let cfg = g_Config genesis in
      if c_Ethash cfg = None then Failed UnsupportedConsensusEngine
      else
        let spec = parityChainSpec_new P network bootnodes in
        result_bind (parityForkSchedule P cfg spec) (\<lambda>spec.
        result_bind (parityParamsOf P cfg spec) (\<lambda>spec.
        let spec = spec\<lparr>p_Genesis := parityGenesisOf P genesis\<rparr> in
        result_bind (paritySetAccounts (g_Alloc genesis) Map.empty) (\<lambda>accounts.
        let spec = spec\<lparr>p_Accounts := Some accounts\<rparr>;
            spec = parityFrontierPrecompiles spec;
            spec = (if c_ByzantiumBlock cfg \<noteq> None
                    then parityByzantiumPrecompiles (c_ByzantiumBlock cfg) spec else spec)
        in if c_IstanbulBlock cfg \<noteq> None
           then (if c_ByzantiumBlock cfg = None then Failed InvalidForkDependency
                 else Returned (parityIstanbulPrecompiles (c_ByzantiumBlock cfg)
                                  (c_IstanbulBlock cfg) spec))
           else Returned spec))))"

subsection \<open>Format C: pyethereum\<close>

record pyEthereumGenesisSpec =
  py_Nonce :: "byte list"
  py_Timestamp :: uint64
  py_ExtraData :: "byte list"
  py_GasLimit :: uint64
  py_Difficulty :: "int option"
  py_Mixhash :: Hash
  py_Coinbase :: Address
  py_Alloc :: "(Address \<times> GenesisAccount) list"
  py_ParentHash :: Hash

text \<open>
  \<open>func newPyEthereumGenesisSpec(network string, genesis *core.Genesis)
  (*pyEthereumGenesisSpec, error)\<close>.
\<close>

definition newPyEthereumGenesisSpec ::
  "protocol \<Rightarrow> string \<Rightarrow> Genesis \<Rightarrow> pyEthereumGenesisSpec result" where
  "newPyEthereumGenesisSpec P network genesis =
     (if c_Ethash (g_Config genesis) = None then Failed UnsupportedConsensusEngine
      else Returned
        \<lparr>py_Nonce = EncodeNonce P (g_Nonce genesis),
         py_Timestamp = g_Timestamp genesis,
         py_ExtraData = g_ExtraData genesis,
         py_GasLimit = g_GasLimit genesis,
         py_Difficulty = g_Difficulty genesis,
         py_Mixhash = g_Mixhash genesis,
         py_Coinbase = g_Coinbase genesis,
         py_Alloc = g_Alloc genesis,
         py_ParentHash = g_ParentHash genesis\<rparr>)"

subsection \<open>Reading a result\<close>

text \<open>The account tables of a specification, a nil map read as the empty map.\<close>

definition alethAccounts :: "alethGenesisSpec \<Rightarrow> (Address \<rightharpoonup> alethGenesisSpecAccount)" where
  "alethAccounts spec = (case a_Accounts spec of None \<Rightarrow> Map.empty | Some m \<Rightarrow> m)"

definition parityAccounts :: "parityChainSpec \<Rightarrow> (Address \<rightharpoonup> parityChainSpecAccount)" where
  "parityAccounts spec = (case p_Accounts spec of None \<Rightarrow> Map.empty | Some m \<Rightarrow> m)"

text \<open>
  The precompile declared at a single-byte address, and the balance of an account, if the
  table has one there.
\<close>

definition alethPrecompileAt :: "alethGenesisSpec \<Rightarrow> byte \<Rightarrow> alethGenesisSpecBuiltin option" where
  "alethPrecompileAt spec address =
     (case alethAccounts spec (BytesToAddress [address]) of
        None \<Rightarrow> None | Some a \<Rightarrow> aa_Precompiled a)"

definition alethBalanceAt :: "alethGenesisSpec \<Rightarrow> Address \<Rightarrow> int option" where
  "alethBalanceAt spec addr =
     (case alethAccounts spec addr of None \<Rightarrow> None | Some a \<Rightarrow> aa_Balance a)"

definition parityBuiltinAt :: "parityChainSpec \<Rightarrow> byte \<Rightarrow> parityChainSpecBuiltin option" where
  "parityBuiltinAt spec address =
     (case parityAccounts spec (BytesToAddress [address]) of
        None \<Rightarrow> None | Some a \<Rightarrow> pac_Builtin a)"

text \<open>The addresses of a table that carry a precompile.\<close>

definition alethPrecompileAddresses :: "alethGenesisSpec \<Rightarrow> Address set" where
  "alethPrecompileAddresses spec =
     {addr. case alethAccounts spec addr of None \<Rightarrow> False | Some a \<Rightarrow> aa_Precompiled a \<noteq> None}"

definition parityBuiltinAddresses :: "parityChainSpec \<Rightarrow> Address set" where
  "parityBuiltinAddresses spec =
     {addr. case parityAccounts spec addr of None \<Rightarrow> False | Some a \<Rightarrow> pac_Builtin a \<noteq> None}"

text \<open>
  The genesis models on which \<open>newParityChainSpec\<close> reaches its fork-dependency check:
  every pointer it dereferences without a nil check is set.
\<close>

definition parityReady :: "Genesis \<Rightarrow> bool" where
  "parityReady genesis \<longleftrightarrow>
     c_Ethash (g_Config genesis) \<noteq> None \<and>
     c_HomesteadBlock (g_Config genesis) \<noteq> None \<and>
     c_EIP150Block (g_Config genesis) \<noteq> None \<and>
     c_EIP155Block (g_Config genesis) \<noteq> None \<and>
     c_EIP158Block (g_Config genesis) \<noteq> None \<and>
     c_ChainID (g_Config genesis) \<noteq> None \<and>
     list_all (\<lambda>entry. ga_Balance (snd entry) \<noteq> None) (g_Alloc genesis)"

text \<open>
  One step of a schedule as the spec words it: a fork whose block is set writes the entry
  keyed by the text of its block, a fork whose block is nil writes nothing.
\<close>

definition scheduleEntry ::
  "protocol \<Rightarrow> int option \<Rightarrow> string \<Rightarrow> (string \<rightharpoonup> string) \<Rightarrow> (string \<rightharpoonup> string)" where
  "scheduleEntry P block v m = (case block of None \<Rightarrow> m | Some num \<Rightarrow> m(EncodeBig P num \<mapsto> v))"

subsection \<open>An instance of the collaborators, and concrete genesis models\<close>

text \<open>
  The general theorems below hold for every \<open>protocol\<close>. To run the builders on concrete
  genesis models, \<open>upstreamProtocol\<close> instantiates the collaborators with the values and
  codecs of upstream go-ethereum: hexadecimal text with the prefix \<open>0x\<close>, a big-endian
  block nonce, ASCII lower case.
\<close>

definition hexDigit :: "nat \<Rightarrow> char" where
  "hexDigit d = ''0123456789abcdef'' ! (d mod 16)"

fun hexDigits :: "nat \<Rightarrow> string" where
  "hexDigits n = (if n < 16 then [hexDigit n] else hexDigits (n div 16) @ [hexDigit (n mod 16)])"

declare hexDigits.simps [simp del]

definition upstreamEncodeBig :: "int \<Rightarrow> string" where
  "upstreamEncodeBig n =
     (if n = 0 then ''0x0''
      else if 0 < n then ''0x'' @ hexDigits (nat n)
      else ''-0x'' @ hexDigits (nat (- n)))"

definition upstreamEncodeUint64 :: "uint64 \<Rightarrow> string" where
  "upstreamEncodeUint64 w = ''0x'' @ hexDigits (unat w)"

definition upstreamEncodeNonce :: "uint64 \<Rightarrow> byte list" where
  "upstreamEncodeNonce w = map (\<lambda>i. ucast (drop_bit (8 * (7 - i)) w)) [0..<8]"

definition asciiToLower :: "string \<Rightarrow> string" where
  "asciiToLower s =
     map (\<lambda>c. let n = (of_char c :: nat)
              in if 65 \<le> n \<and> n \<le> 90 then char_of (n + 32) else c) s"

definition upstreamProtocol :: protocol where
  "upstreamProtocol =
     \<lparr>MaximumExtraDataSize = 32,
      MinGasLimit = 5000,
      GasLimitBoundDivisor = 1024,
      MaxCodeSize = 24576,
      MinimumDifficulty = 131072,
      DifficultyBoundDivisor = 2048,
      DurationLimit = 13,
      FrontierBlockReward = 5000000000000000000,
      ByzantiumBlockReward = 3000000000000000000,
      ConstantinopleBlockReward = 2000000000000000000,
      EncodeBig = upstreamEncodeBig,
      EncodeUint64 = upstreamEncodeUint64,
      EncodeNonce = upstreamEncodeNonce,
      ToLower = asciiToLower\<rparr>"

text \<open>A genesis block with a given configuration and allocation table.\<close>

definition genesisWith :: "ChainConfig \<Rightarrow> (Address \<times> GenesisAccount) list \<Rightarrow> Genesis" where
  "genesisWith cfg alloc =
     \<lparr>g_Config = cfg, g_Nonce = 66, g_Timestamp = 0, g_ExtraData = [],
      g_GasLimit = 4700000, g_Difficulty = Some 524288, g_Mixhash = replicate 32 0,
      g_Coinbase = replicate 20 0, g_Alloc = alloc, g_ParentHash = replicate 32 0\<rparr>"

text \<open>Ethash, chain id 1234, no fork block set.\<close>

definition noForkConfig :: ChainConfig where
  "noForkConfig =
     \<lparr>c_ChainID = Some 1234, c_HomesteadBlock = None, c_EIP150Block = None,
      c_EIP155Block = None, c_EIP158Block = None, c_ByzantiumBlock = None,
      c_ConstantinopleBlock = None, c_PetersburgBlock = None, c_IstanbulBlock = None,
      c_Ethash = Some ()\<rparr>"

text \<open>The same with the Istanbul block set to 20 and the Byzantium block nil.\<close>

definition istanbulOnlyConfig :: ChainConfig where
  "istanbulOnlyConfig = noForkConfig\<lparr>c_IstanbulBlock := Some 20\<rparr>"

text \<open>The configuration of the spec's scenario: Homestead 0, Byzantium 10, Istanbul 20.\<close>

definition scenarioConfig :: ChainConfig where
  "scenarioConfig =
     noForkConfig\<lparr>c_HomesteadBlock := Some 0, c_ByzantiumBlock := Some 10,
                  c_IstanbulBlock := Some 20\<rparr>"

text \<open>The four early forks at block 0 and no later fork.\<close>

definition spuriousDragonConfig :: ChainConfig where
  "spuriousDragonConfig =
     noForkConfig\<lparr>c_HomesteadBlock := Some 0, c_EIP150Block := Some 0,
                  c_EIP155Block := Some 0, c_EIP158Block := Some 0\<rparr>"

text \<open>Every fork set: the early forks at 0, Byzantium 10, Constantinople and Petersburg 15, Istanbul 20.\<close>

definition allForksConfig :: ChainConfig where
  "allForksConfig =
     spuriousDragonConfig\<lparr>c_ByzantiumBlock := Some 10, c_ConstantinopleBlock := Some 15,
                          c_PetersburgBlock := Some 15, c_IstanbulBlock := Some 20\<rparr>"

text \<open>A configuration with no Ethash engine and no other field set.\<close>

definition cliqueConfig :: ChainConfig where
  "cliqueConfig =
     \<lparr>c_ChainID = None, c_HomesteadBlock = None, c_EIP150Block = None,
      c_EIP155Block = None, c_EIP158Block = None, c_ByzantiumBlock = None,
      c_ConstantinopleBlock = None, c_PetersburgBlock = None, c_IstanbulBlock = None,
      c_Ethash = None\<rparr>"

text \<open>
  The allocation of the spec's scenario: the address
  \<open>0x0000000000000000000000000000000000000001\<close> with balance 100.
\<close>

definition addressOne :: Address where
  "addressOne = [0,0,0,0,0,0,0,0,0,0,0,0,0,0,0,0,0,0,0,1]"

definition scenarioAlloc :: "(Address \<times> GenesisAccount) list" where
  "scenarioAlloc = [(addressOne, \<lparr>ga_Balance = Some 100, ga_Nonce = 0\<rparr>)]"

text \<open>
  Two specifications under construction whose account table already holds the prefunded
  account of the scenario, at the address of precompile 1.
\<close>

definition prefundedAleth :: alethGenesisSpec where
  "prefundedAleth =
     \<lparr>a_SealEngine = ''Ethash'',
      a_Params = alethParamsOf upstreamProtocol scenarioConfig 1234,
      a_Genesis = alethGenesisOf upstreamProtocol (genesisWith scenarioConfig scenarioAlloc),
      a_Accounts = Some [addressOne \<mapsto>
        \<lparr>aa_Balance = Some 100, aa_Nonce = 7, aa_Precompiled = None\<rparr>]\<rparr>"

definition prefundedParity :: parityChainSpec where
  "prefundedParity =
     (parityChainSpec_new upstreamProtocol ''net'' [])
       \<lparr>p_Accounts := Some [addressOne \<mapsto>
          \<lparr>pac_Balance = 100, pac_Nonce = 7, pac_Builtin = None\<rparr>]\<rparr>"

section \<open>Properties\<close>

subsection \<open>Addresses\<close>

lemma BytesToAddress_single:
  "BytesToAddress [a] = [0,0,0,0,0,0,0,0,0,0,0,0,0,0,0,0,0,0,0,a]"
  by (simp add: BytesToAddress_def AddressLength_def eval_nat_numeral)

lemma BytesToAddress_inj: "BytesToAddress [a] = BytesToAddress [b] \<longleftrightarrow> a = b"
  by (simp add: BytesToAddress_single)

subsection \<open>The result type\<close>

lemmas builder_defs = Let_def result_bind_def Uint64_def

lemma result_bind_Returned:
  "result_bind r f = Returned y \<longleftrightarrow> (\<exists>x. r = Returned x \<and> f x = Returned y)"
  by (cases r) (simp_all add: result_bind_def)

lemma mapAssign_Some: "mapAssign (Some m) k v = Returned (Some (m(k \<mapsto> v)))"
  by (simp add: mapAssign_def)

subsection \<open>The account table of Format A\<close>

lemma alethAccounts_nil: "a_Accounts spec = None \<Longrightarrow> alethAccounts spec = Map.empty"
  by (simp add: alethAccounts_def)

lemma alethSetPrecompile_accounts:
  "alethAccounts (alethSetPrecompile b d spec) =
     (alethAccounts spec)(BytesToAddress [b] \<mapsto>
        (case alethAccounts spec (BytesToAddress [b]) of
           None \<Rightarrow> alethGenesisSpecAccount_zero | Some a \<Rightarrow> a)\<lparr>aa_Precompiled := d\<rparr>)"
  by (simp add: alethSetPrecompile_def alethAccounts_def Let_def split: option.splits)

lemma alethSetAccount_accounts:
  "alethAccounts (alethSetAccount address account spec) =
     (alethAccounts spec)(address \<mapsto>
        (case alethAccounts spec address of
           None \<Rightarrow> alethGenesisSpecAccount_zero | Some a \<Rightarrow> a)
        \<lparr>aa_Balance := ga_Balance account, aa_Nonce := ga_Nonce account\<rparr>)"
  by (simp add: alethSetAccount_def alethAccounts_def Let_def split: option.splits)

lemma alethSetPrecompile_frame:
  "a_Params (alethSetPrecompile b d spec) = a_Params spec"
  "a_Genesis (alethSetPrecompile b d spec) = a_Genesis spec"
  "a_SealEngine (alethSetPrecompile b d spec) = a_SealEngine spec"
  by (simp_all add: alethSetPrecompile_def Let_def)

lemma alethSetAccounts_frame:
  "a_Params (alethSetAccounts alloc spec) = a_Params spec \<and>
   a_Genesis (alethSetAccounts alloc spec) = a_Genesis spec \<and>
   a_SealEngine (alethSetAccounts alloc spec) = a_SealEngine spec"
  by (induction alloc spec rule: alethSetAccounts.induct)
     (simp_all add: alethSetAccount_def Let_def)

text \<open>A later call for the same address replaces the definition the earlier call wrote.\<close>

lemma alethSetPrecompile_replaces:
  "alethSetPrecompile a d2 (alethSetPrecompile a d1 spec) = alethSetPrecompile a d2 spec"
  by (simp add: alethSetPrecompile_def Let_def alethGenesisSpecAccount_zero_def
      split: option.splits)

lemma alethPrecompileAt_set:
  "alethPrecompileAt (alethSetPrecompile b d spec) c =
     (if c = b then d else alethPrecompileAt spec c)"
  by (simp add: alethPrecompileAt_def alethSetPrecompile_accounts BytesToAddress_inj)

lemma alethBalanceAt_set:
  "alethBalanceAt (alethSetPrecompile b d spec) addr = alethBalanceAt spec addr"
  by (simp add: alethBalanceAt_def alethSetPrecompile_accounts alethGenesisSpecAccount_zero_def
      split: option.splits)

lemma alethSetAccount_addresses:
  "alethPrecompileAddresses (alethSetAccount address account spec) =
     alethPrecompileAddresses spec"
  by (auto simp add: alethPrecompileAddresses_def alethSetAccount_accounts
      alethGenesisSpecAccount_zero_def split: if_splits option.splits)

lemma alethSetAccounts_addresses:
  "alethPrecompileAddresses (alethSetAccounts alloc spec) = alethPrecompileAddresses spec"
  by (induction alloc spec rule: alethSetAccounts.induct)
     (simp_all add: alethSetAccount_addresses)

lemma alethPrecompileAddresses_nil:
  "a_Accounts spec = None \<Longrightarrow> alethPrecompileAddresses spec = {}"
  by (simp add: alethPrecompileAddresses_def alethAccounts_def)

lemma alethPrecompileAddresses_set:
  "alethPrecompileAddresses (alethSetPrecompile b (Some d) spec) =
     insert (BytesToAddress [b]) (alethPrecompileAddresses spec)"
  by (auto simp add: alethPrecompileAddresses_def alethSetPrecompile_accounts split: if_splits)

subsection \<open>The outcomes of the Format A builder\<close>

lemma newAleth_params:
  assumes "newAlethGenesisSpec P network genesis = Returned spec"
  shows "\<exists>n. c_ChainID (g_Config genesis) = Some n \<and>
           a_Params spec = alethParamsOf P (g_Config genesis) (BigUint64 n)"
  using assms
  by (auto simp add: newAlethGenesisSpec_def Let_def result_bind_def Uint64_def
      alethFrontierPrecompiles_def alethByzantiumPrecompiles_def alethIstanbulPrecompiles_def
      alethSetPrecompile_frame alethSetAccounts_frame
      split: if_splits option.splits)

lemma newAleth_istanbul_form:
  assumes "newAlethGenesisSpec P network genesis = Returned spec"
    and "c_ByzantiumBlock (g_Config genesis) = Some b"
    and "c_IstanbulBlock (g_Config genesis) = Some i"
  shows "\<exists>s. spec = alethIstanbulPrecompiles (Some b) (Some i) s"
  using assms
  by (auto simp add: newAlethGenesisSpec_def Let_def result_bind_Returned split: if_splits)

text \<open>
  The builder returns a specification exactly in the absence of a nil chain id and of a
  fork-dependency violation; the three lemmas give its outcome in each case.
\<close>

lemma aleth_returns:
  assumes "c_Ethash (g_Config genesis) \<noteq> None" and "c_ChainID (g_Config genesis) \<noteq> None"
    and "c_ByzantiumBlock (g_Config genesis) \<noteq> None \<or> c_IstanbulBlock (g_Config genesis) = None"
  shows "\<exists>spec. newAlethGenesisSpec P network genesis = Returned spec"
  using assms by (auto simp add: newAlethGenesisSpec_def builder_defs)

lemma aleth_fork_dependency:
  assumes "c_Ethash (g_Config genesis) \<noteq> None"
    and "c_ChainID (g_Config genesis) = Some n"
    and "c_IstanbulBlock (g_Config genesis) \<noteq> None"
    and "c_ByzantiumBlock (g_Config genesis) = None"
  shows "newAlethGenesisSpec P network genesis = Failed InvalidForkDependency"
  using assms by (simp add: newAlethGenesisSpec_def builder_defs)

lemma aleth_nil_chain_id_panics:
  assumes "c_Ethash (g_Config genesis) \<noteq> None" and "c_ChainID (g_Config genesis) = None"
  shows "newAlethGenesisSpec P network genesis = Panicked NilDereference"
  using assms by (simp add: newAlethGenesisSpec_def builder_defs)

text \<open>
  With no Byzantium and no Istanbul block, the account table carries precompiles at the
  addresses 1 to 4 and nowhere else, whatever the allocation table holds.
\<close>

lemma aleth_no_fork_precompiles:
  assumes "c_Ethash (g_Config genesis) \<noteq> None"
    and "c_ChainID (g_Config genesis) = Some n"
    and "c_ByzantiumBlock (g_Config genesis) = None"
    and "c_IstanbulBlock (g_Config genesis) = None"
  shows "\<exists>spec. newAlethGenesisSpec P network genesis = Returned spec \<and>
           alethPrecompileAddresses spec =
             {BytesToAddress [1], BytesToAddress [2], BytesToAddress [3], BytesToAddress [4]} \<and>
           map_option ab_Name (alethPrecompileAt spec 1) = Some ''ecrecover'' \<and>
           map_option ab_Name (alethPrecompileAt spec 2) = Some ''sha256'' \<and>
           map_option ab_Name (alethPrecompileAt spec 3) = Some ''ripemd160'' \<and>
           map_option ab_Name (alethPrecompileAt spec 4) = Some ''identity''"
  using assms
  by (auto simp add: newAlethGenesisSpec_def builder_defs alethFrontierPrecompiles_def
      alethPrecompileAddresses_set alethSetAccounts_addresses alethPrecompileAddresses_nil
      alethPrecompileAt_set)

lemma pyethereum_returns:
  assumes "c_Ethash (g_Config genesis) \<noteq> None"
  shows "\<exists>spec. newPyEthereumGenesisSpec P network genesis = Returned spec \<and>
           py_Alloc spec = g_Alloc genesis"
  using assms by (simp add: newPyEthereumGenesisSpec_def)

subsection \<open>The account table of Format B\<close>

lemma paritySetPrecompile_accounts:
  "parityAccounts (paritySetPrecompile b d spec) =
     (parityAccounts spec)(BytesToAddress [b] \<mapsto>
        (case parityAccounts spec (BytesToAddress [b]) of
           None \<Rightarrow> parityChainSpecAccount_zero | Some a \<Rightarrow> a)\<lparr>pac_Builtin := d\<rparr>)"
  by (simp add: paritySetPrecompile_def parityAccounts_def Let_def split: option.splits)

lemma paritySetPrecompile_frame:
  "p_Params (paritySetPrecompile b d spec) = p_Params spec"
  "p_Engine (paritySetPrecompile b d spec) = p_Engine spec"
  by (simp_all add: paritySetPrecompile_def Let_def)

lemma paritySetPrecompile_replaces:
  "paritySetPrecompile a d2 (paritySetPrecompile a d1 spec) = paritySetPrecompile a d2 spec"
  by (simp add: paritySetPrecompile_def Let_def parityChainSpecAccount_zero_def
      split: option.splits)

lemma parityBuiltinAt_set:
  "parityBuiltinAt (paritySetPrecompile b d spec) c =
     (if c = b then d else parityBuiltinAt spec c)"
  by (simp add: parityBuiltinAt_def paritySetPrecompile_accounts BytesToAddress_inj)

lemma parityPrecompiles_frame:
  "p_Params (parityFrontierPrecompiles spec) = p_Params spec"
  "p_Engine (parityFrontierPrecompiles spec) = p_Engine spec"
  "p_Params (parityByzantiumPrecompiles b spec) = p_Params spec"
  "p_Engine (parityByzantiumPrecompiles b spec) = p_Engine spec"
  "p_Params (parityIstanbulPrecompiles b i spec) = p_Params spec"
  "p_Engine (parityIstanbulPrecompiles b i spec) = p_Engine spec"
  by (simp_all add: parityFrontierPrecompiles_def parityByzantiumPrecompiles_def
      parityIstanbulPrecompiles_def Let_def paritySetPrecompile_frame)

lemma parityBuiltinAddresses_set:
  "parityBuiltinAddresses (paritySetPrecompile b (Some d) spec) =
     insert (BytesToAddress [b]) (parityBuiltinAddresses spec)"
  by (auto simp add: parityBuiltinAddresses_def paritySetPrecompile_accounts split: if_splits)

lemma parityBuiltinAddresses_fresh:
  assumes "\<forall>addr a. m addr = Some a \<longrightarrow> pac_Builtin a = None"
  shows "parityBuiltinAddresses (spec\<lparr>p_Accounts := Some m\<rparr>) = {}"
  using assms
  by (auto simp add: parityBuiltinAddresses_def parityAccounts_def split: option.splits)

text \<open>The allocation loop returns when every balance is set, and declares no builtin.\<close>

lemma paritySetAccounts_returns:
  assumes "list_all (\<lambda>entry. ga_Balance (snd entry) \<noteq> None) alloc"
    and "\<forall>addr a. accounts addr = Some a \<longrightarrow> pac_Builtin a = None"
  shows "\<exists>m. paritySetAccounts alloc accounts = Returned m \<and>
           (\<forall>addr a. m addr = Some a \<longrightarrow> pac_Builtin a = None)"
  using assms
  by (induction alloc accounts rule: paritySetAccounts.induct) auto

subsection \<open>The stages of the Format B builder\<close>

lemma newParity_returned:
  assumes "newParityChainSpec P network genesis bootnodes = Returned spec"
  shows "\<exists>s1 s2. parityForkSchedule P (g_Config genesis) (parityChainSpec_new P network bootnodes)
              = Returned s1 \<and>
           parityParamsOf P (g_Config genesis) s1 = Returned s2 \<and>
           p_Params spec = p_Params s2 \<and> p_Engine spec = p_Engine s2"
  using assms
  by (auto simp add: newParityChainSpec_def Let_def result_bind_Returned parityPrecompiles_frame
      split: if_splits)

lemma newParity_istanbul_form:
  assumes "newParityChainSpec P network genesis bootnodes = Returned spec"
    and "c_ByzantiumBlock (g_Config genesis) = Some b"
    and "c_IstanbulBlock (g_Config genesis) = Some i"
  shows "\<exists>s. spec = parityIstanbulPrecompiles (Some b) (Some i) s"
  using assms
  by (auto simp add: newParityChainSpec_def Let_def result_bind_Returned split: if_splits)

lemma parityParamsOf_returned:
  assumes "parityParamsOf P cfg s = Returned s'"
  shows "p_Engine s' = p_Engine s \<and> pp_EIP98Transition (p_Params s') = word_of_int MaxInt64"
  using assms
  by (auto simp add: parityParamsOf_def Let_def result_bind_Returned)

lemma parityParamsOf_returns:
  assumes "c_ChainID cfg \<noteq> None"
  shows "\<exists>s'. parityParamsOf P cfg s = Returned s'"
  using assms by (auto simp add: parityParamsOf_def builder_defs)

lemma setByzantium_maps:
  assumes "pe_BlockReward (p_Engine s) = Some r" "pe_DifficultyBombDelays (p_Engine s) = Some d"
  shows "\<exists>s'. setByzantium P num s = Returned s' \<and>
    pe_BlockReward (p_Engine s') =
      Some (r(EncodeBig P num \<mapsto> EncodeBig P (ByzantiumBlockReward P))) \<and>
    pe_DifficultyBombDelays (p_Engine s') =
      Some (d(EncodeBig P num \<mapsto> EncodeUint64 P 3000000))"
  using assms by (simp add: setByzantium_def mapAssign_Some result_bind_def Let_def)

lemma setConstantinople_maps:
  assumes "pe_BlockReward (p_Engine s) = Some r" "pe_DifficultyBombDelays (p_Engine s) = Some d"
  shows "\<exists>s'. setConstantinople P num s = Returned s' \<and>
    pe_BlockReward (p_Engine s') =
      Some (r(EncodeBig P num \<mapsto> EncodeBig P (ConstantinopleBlockReward P))) \<and>
    pe_DifficultyBombDelays (p_Engine s') =
      Some (d(EncodeBig P num \<mapsto> EncodeUint64 P 2000000))"
  using assms by (simp add: setConstantinople_def mapAssign_Some result_bind_def Let_def)

lemma setLater_engine:
  "p_Engine (setConstantinopleFix num s) = p_Engine s"
  "p_Engine (setIstanbul num s) = p_Engine s"
  by (simp_all add: setConstantinopleFix_def setIstanbul_def Let_def)

lemma parityEarlyForks_maps:
  assumes "parityEarlyForks P cfg s = Returned t"
  shows "pe_BlockReward (p_Engine t) = Some [''0x0'' \<mapsto> EncodeBig P (FrontierBlockReward P)] \<and>
         pe_DifficultyBombDelays (p_Engine t) = Some Map.empty"
  using assms
  by (auto simp add: parityEarlyForks_def Let_def result_bind_Returned mapAssign_Some)

lemma parityLaterForks_maps:
  assumes "parityLaterForks P cfg t = Returned s'"
    and r: "pe_BlockReward (p_Engine t) = Some r"
    and d: "pe_DifficultyBombDelays (p_Engine t) = Some d"
  shows "pe_BlockReward (p_Engine s') =
           Some (scheduleEntry P (c_ConstantinopleBlock cfg)
                   (EncodeBig P (ConstantinopleBlockReward P))
                  (scheduleEntry P (c_ByzantiumBlock cfg)
                     (EncodeBig P (ByzantiumBlockReward P)) r)) \<and>
         pe_DifficultyBombDelays (p_Engine s') =
           Some (scheduleEntry P (c_ConstantinopleBlock cfg) (EncodeUint64 P 2000000)
                  (scheduleEntry P (c_ByzantiumBlock cfg) (EncodeUint64 P 3000000) d))"
proof -
  let ?r1 = "scheduleEntry P (c_ByzantiumBlock cfg) (EncodeBig P (ByzantiumBlockReward P)) r"
  let ?d1 = "scheduleEntry P (c_ByzantiumBlock cfg) (EncodeUint64 P 3000000) d"
  from assms(1) obtain u v where
    u: "(case c_ByzantiumBlock cfg of None \<Rightarrow> Returned t | Some num \<Rightarrow> setByzantium P num t)
          = Returned u"
    and v: "(case c_ConstantinopleBlock cfg of
               None \<Rightarrow> Returned u | Some num \<Rightarrow> setConstantinople P num u) = Returned v"
    and s': "s' = (case c_IstanbulBlock cfg of None \<Rightarrow> (case c_PetersburgBlock cfg of
                       None \<Rightarrow> v | Some num \<Rightarrow> setConstantinopleFix num v)
                   | Some num \<Rightarrow> setIstanbul num (case c_PetersburgBlock cfg of
                       None \<Rightarrow> v | Some num \<Rightarrow> setConstantinopleFix num v))"
    by (auto simp add: parityLaterForks_def Let_def result_bind_Returned)
  have u_maps: "pe_BlockReward (p_Engine u) = Some ?r1 \<and>
                pe_DifficultyBombDelays (p_Engine u) = Some ?d1"
  proof (cases "c_ByzantiumBlock cfg")
    case None
    with u r d show ?thesis by (simp add: scheduleEntry_def)
  next
    case (Some num)
    with u setByzantium_maps [OF r d, of P num] show ?thesis
      by (auto simp add: scheduleEntry_def)
  qed
  have v_maps: "pe_BlockReward (p_Engine v) =
                  Some (scheduleEntry P (c_ConstantinopleBlock cfg)
                          (EncodeBig P (ConstantinopleBlockReward P)) ?r1) \<and>
                pe_DifficultyBombDelays (p_Engine v) =
                  Some (scheduleEntry P (c_ConstantinopleBlock cfg) (EncodeUint64 P 2000000) ?d1)"
  proof (cases "c_ConstantinopleBlock cfg")
    case None
    with v u_maps show ?thesis by (simp add: scheduleEntry_def)
  next
    case (Some num)
    from u_maps have a: "pe_BlockReward (p_Engine u) = Some ?r1"
      and b: "pe_DifficultyBombDelays (p_Engine u) = Some ?d1" by simp_all
    from Some v setConstantinople_maps [OF a b, of P num] show ?thesis
      by (auto simp add: scheduleEntry_def)
  qed
  have "p_Engine s' = p_Engine v"
    unfolding s' by (simp add: setLater_engine split: option.splits)
  with v_maps show ?thesis by simp
qed

lemma parityForkSchedule_maps:
  assumes "parityForkSchedule P cfg s = Returned s'"
  shows "pe_BlockReward (p_Engine s') =
           Some (scheduleEntry P (c_ConstantinopleBlock cfg)
                   (EncodeBig P (ConstantinopleBlockReward P))
                  (scheduleEntry P (c_ByzantiumBlock cfg) (EncodeBig P (ByzantiumBlockReward P))
                    [''0x0'' \<mapsto> EncodeBig P (FrontierBlockReward P)])) \<and>
         pe_DifficultyBombDelays (p_Engine s') =
           Some (scheduleEntry P (c_ConstantinopleBlock cfg) (EncodeUint64 P 2000000)
                  (scheduleEntry P (c_ByzantiumBlock cfg) (EncodeUint64 P 3000000) Map.empty))"
proof -
  from assms obtain t where t: "parityEarlyForks P cfg s = Returned t"
    and l: "parityLaterForks P cfg t = Returned s'"
    by (auto simp add: parityForkSchedule_def result_bind_Returned)
  from parityEarlyForks_maps [OF t] have
    r: "pe_BlockReward (p_Engine t) = Some [''0x0'' \<mapsto> EncodeBig P (FrontierBlockReward P)]"
    and d: "pe_DifficultyBombDelays (p_Engine t) = Some Map.empty" by simp_all
  from parityLaterForks_maps [OF l r d] show ?thesis .
qed

lemma parityForkSchedule_returns:
  assumes "c_HomesteadBlock cfg \<noteq> None" "c_EIP150Block cfg \<noteq> None"
    "c_EIP155Block cfg \<noteq> None" "c_EIP158Block cfg \<noteq> None"
  shows "\<exists>s. parityForkSchedule P cfg (parityChainSpec_new P network bootnodes) = Returned s"
  using assms
  by (auto simp add: parityForkSchedule_def parityEarlyForks_def parityLaterForks_def
      setByzantium_def setConstantinople_def mapAssign_def builder_defs
      split: option.splits)

lemma parity_stages:
  assumes "parityReady genesis"
  shows "\<exists>s1 s2 m.
     parityForkSchedule P (g_Config genesis) (parityChainSpec_new P network bootnodes)
       = Returned s1 \<and>
     parityParamsOf P (g_Config genesis) s1 = Returned s2 \<and>
     paritySetAccounts (g_Alloc genesis) Map.empty = Returned m \<and>
     (\<forall>addr a. m addr = Some a \<longrightarrow> pac_Builtin a = None)"
proof -
  from assms obtain s1 where
    s1: "parityForkSchedule P (g_Config genesis) (parityChainSpec_new P network bootnodes)
           = Returned s1"
    using parityForkSchedule_returns [of "g_Config genesis" P network bootnodes]
    by (auto simp add: parityReady_def)
  from assms obtain s2 where s2: "parityParamsOf P (g_Config genesis) s1 = Returned s2"
    using parityParamsOf_returns [of "g_Config genesis" P s1] by (auto simp add: parityReady_def)
  from assms obtain m where "paritySetAccounts (g_Alloc genesis) Map.empty = Returned m"
    and "\<forall>addr a. m addr = Some a \<longrightarrow> pac_Builtin a = None"
    using paritySetAccounts_returns [of "g_Alloc genesis" Map.empty]
    by (auto simp add: parityReady_def)
  with s1 s2 show ?thesis by blast
qed

subsection \<open>The outcomes of the Format B builder\<close>

text \<open>
  The Homestead block is converted before any nil check: with a supported engine and a
  nil Homestead block the builder panics, whatever the other fields hold.
\<close>

lemma parity_nil_homestead_panics:
  assumes "c_Ethash (g_Config genesis) \<noteq> None" and "c_HomesteadBlock (g_Config genesis) = None"
  shows "newParityChainSpec P network genesis bootnodes = Panicked NilDereference"
  using assms
  by (simp add: newParityChainSpec_def parityForkSchedule_def parityEarlyForks_def
      parityChainSpec_new_def parityEthashParams_zero_def mapAssign_def builder_defs)

lemma parity_returns:
  assumes "parityReady genesis"
    and "c_ByzantiumBlock (g_Config genesis) \<noteq> None \<or> c_IstanbulBlock (g_Config genesis) = None"
  shows "\<exists>spec. newParityChainSpec P network genesis bootnodes = Returned spec"
proof -
  from parity_stages [OF assms(1), of P network bootnodes] obtain s1 s2 m where
    "parityForkSchedule P (g_Config genesis) (parityChainSpec_new P network bootnodes)
       = Returned s1"
    "parityParamsOf P (g_Config genesis) s1 = Returned s2"
    "paritySetAccounts (g_Alloc genesis) Map.empty = Returned m" by blast
  with assms show ?thesis
    by (auto simp add: newParityChainSpec_def parityReady_def Let_def result_bind_def)
qed

lemma parity_fork_dependency:
  assumes "parityReady genesis"
    and "c_IstanbulBlock (g_Config genesis) \<noteq> None"
    and "c_ByzantiumBlock (g_Config genesis) = None"
  shows "newParityChainSpec P network genesis bootnodes = Failed InvalidForkDependency"
proof -
  from parity_stages [OF assms(1), of P network bootnodes] obtain s1 s2 m where
    "parityForkSchedule P (g_Config genesis) (parityChainSpec_new P network bootnodes)
       = Returned s1"
    "parityParamsOf P (g_Config genesis) s1 = Returned s2"
    "paritySetAccounts (g_Alloc genesis) Map.empty = Returned m" by blast
  with assms show ?thesis
    by (simp add: newParityChainSpec_def parityReady_def Let_def result_bind_def)
qed

lemma parity_no_fork_precompiles:
  assumes "parityReady genesis"
    and "c_ByzantiumBlock (g_Config genesis) = None"
    and "c_IstanbulBlock (g_Config genesis) = None"
  shows "\<exists>spec. newParityChainSpec P network genesis bootnodes = Returned spec \<and>
           parityBuiltinAddresses spec =
             {BytesToAddress [1], BytesToAddress [2], BytesToAddress [3], BytesToAddress [4]} \<and>
           map_option pbi_Name (parityBuiltinAt spec 1) = Some ''ecrecover'' \<and>
           map_option pbi_Name (parityBuiltinAt spec 2) = Some ''sha256'' \<and>
           map_option pbi_Name (parityBuiltinAt spec 3) = Some ''ripemd160'' \<and>
           map_option pbi_Name (parityBuiltinAt spec 4) = Some ''identity''"
proof -
  from parity_stages [OF assms(1), of P network bootnodes] obtain s1 s2 m where
    "parityForkSchedule P (g_Config genesis) (parityChainSpec_new P network bootnodes)
       = Returned s1"
    "parityParamsOf P (g_Config genesis) s1 = Returned s2"
    "paritySetAccounts (g_Alloc genesis) Map.empty = Returned m"
    "\<forall>addr a. m addr = Some a \<longrightarrow> pac_Builtin a = None" by blast
  with assms show ?thesis
    by (auto simp add: newParityChainSpec_def parityReady_def Let_def result_bind_def
        parityFrontierPrecompiles_def parityBuiltinAddresses_set parityBuiltinAddresses_fresh
        parityBuiltinAt_set)
qed

lemma ready_examples:
  "parityReady (genesisWith spuriousDragonConfig [])"
  "parityReady (genesisWith allForksConfig scenarioAlloc)"
  by (simp_all add: parityReady_def genesisWith_def spuriousDragonConfig_def allForksConfig_def
      noForkConfig_def scenarioAlloc_def)

subsection \<open>The builders on the concrete genesis models\<close>

lemma upstream_codecs:
  "EncodeBig upstreamProtocol 0 = ''0x0''"
  "EncodeBig upstreamProtocol 10 = ''0xa''"
  "EncodeBig upstreamProtocol 15 = ''0xf''"
  "EncodeBig upstreamProtocol (FrontierBlockReward upstreamProtocol) = ''0x4563918244f40000''"
  "EncodeBig upstreamProtocol (ByzantiumBlockReward upstreamProtocol) = ''0x29a2241af62c0000''"
  "EncodeBig upstreamProtocol (ConstantinopleBlockReward upstreamProtocol) =
     ''0x1bc16d674ec80000''"
  "EncodeUint64 upstreamProtocol 3000000 = ''0x2dc6c0''"
  "EncodeUint64 upstreamProtocol 2000000 = ''0x1e8480''"
  by (simp_all add: upstreamProtocol_def upstreamEncodeBig_def upstreamEncodeUint64_def
      hexDigits.simps hexDigit_def)

lemma istanbulOnly_config:
  "c_Ethash (g_Config (genesisWith istanbulOnlyConfig [])) \<noteq> None"
  "c_ChainID (g_Config (genesisWith istanbulOnlyConfig [])) = Some 1234"
  "c_HomesteadBlock (g_Config (genesisWith istanbulOnlyConfig [])) = None"
  "c_ByzantiumBlock (g_Config (genesisWith istanbulOnlyConfig [])) = None"
  "c_IstanbulBlock (g_Config (genesisWith istanbulOnlyConfig [])) \<noteq> None"
  "g_Alloc (genesisWith istanbulOnlyConfig []) = []"
  by (simp_all add: genesisWith_def istanbulOnlyConfig_def noForkConfig_def)

lemma noFork_config:
  "c_Ethash (g_Config (genesisWith noForkConfig [])) \<noteq> None"
  "c_ChainID (g_Config (genesisWith noForkConfig [])) = Some 1234"
  "c_HomesteadBlock (g_Config (genesisWith noForkConfig [])) = None"
  "c_ByzantiumBlock (g_Config (genesisWith noForkConfig [])) = None"
  "c_IstanbulBlock (g_Config (genesisWith noForkConfig [])) = None"
  "g_Alloc (genesisWith noForkConfig []) = []"
  by (simp_all add: genesisWith_def noForkConfig_def)

lemma allForks_config:
  "c_Ethash (g_Config (genesisWith allForksConfig scenarioAlloc)) = Some ()"
  "c_ChainID (g_Config (genesisWith allForksConfig scenarioAlloc)) = Some 1234"
  "c_ByzantiumBlock (g_Config (genesisWith allForksConfig scenarioAlloc)) = Some 10"
  "c_ConstantinopleBlock (g_Config (genesisWith allForksConfig scenarioAlloc)) = Some 15"
  "c_IstanbulBlock (g_Config (genesisWith allForksConfig scenarioAlloc)) = Some 20"
  by (simp_all add: genesisWith_def allForksConfig_def spuriousDragonConfig_def noForkConfig_def)

lemma parity_allForks_returns:
  "\<exists>spec. newParityChainSpec upstreamProtocol ''net''
            (genesisWith allForksConfig scenarioAlloc) [] = Returned spec"
proof (rule parity_returns)
  show "parityReady (genesisWith allForksConfig scenarioAlloc)" by (rule ready_examples)
  show "c_ByzantiumBlock (g_Config (genesisWith allForksConfig scenarioAlloc)) \<noteq> None \<or>
        c_IstanbulBlock (g_Config (genesisWith allForksConfig scenarioAlloc)) = None"
    by (simp add: allForks_config)
qed

lemma aleth_allForks_returns:
  "\<exists>spec. newAlethGenesisSpec upstreamProtocol ''net''
            (genesisWith allForksConfig scenarioAlloc) = Returned spec"
  by (rule aleth_returns) (simp_all add: allForks_config)

lemma parity_spuriousDragon_returns:
  "\<exists>spec. newParityChainSpec upstreamProtocol ''net''
            (genesisWith spuriousDragonConfig []) [] = Returned spec"
proof (rule parity_returns)
  show "parityReady (genesisWith spuriousDragonConfig [])" by (rule ready_examples)
  show "c_ByzantiumBlock (g_Config (genesisWith spuriousDragonConfig [])) \<noteq> None \<or>
        c_IstanbulBlock (g_Config (genesisWith spuriousDragonConfig [])) = None"
    by (simp add: genesisWith_def spuriousDragonConfig_def noForkConfig_def)
qed

lemma scenario_config:
  "c_Ethash (g_Config (genesisWith scenarioConfig scenarioAlloc)) = Some ()"
  "c_ChainID (g_Config (genesisWith scenarioConfig scenarioAlloc)) = Some 1234"
  "c_HomesteadBlock (g_Config (genesisWith scenarioConfig scenarioAlloc)) = Some 0"
  "c_ByzantiumBlock (g_Config (genesisWith scenarioConfig scenarioAlloc)) = Some 10"
  "c_IstanbulBlock (g_Config (genesisWith scenarioConfig scenarioAlloc)) = Some 20"
  "g_Alloc (genesisWith scenarioConfig scenarioAlloc) =
     [(addressOne, \<lparr>ga_Balance = Some 100, ga_Nonce = 0\<rparr>)]"
  by (simp_all add: genesisWith_def scenarioConfig_def noForkConfig_def scenarioAlloc_def)

lemma aleth_scenario_returns:
  "\<exists>spec. newAlethGenesisSpec upstreamProtocol ''net''
            (genesisWith scenarioConfig scenarioAlloc) = Returned spec"
  by (rule aleth_returns) (simp_all add: scenario_config)

section \<open>The claims\<close>

subsection \<open>Unsupported consensus engine\<close>

text \<open>
  C5. For every genesis model whose consensus engine is not Ethash
  (\<open>genesis.Config.Ethash == nil\<close>), the three builders fail with the
  unsupported-consensus-engine error and return no specification. The statement puts no
  condition on the fork fields: the error is returned also when every one of them, and
  the chain id, is nil, where reading them through \<open>Uint64()\<close> would panic.
\<close>

theorem unsupported_engine_rejected:
  assumes "c_Ethash (g_Config genesis) = None"
  shows "newAlethGenesisSpec P network genesis = Failed UnsupportedConsensusEngine \<and>
         newParityChainSpec P network genesis bootnodes = Failed UnsupportedConsensusEngine \<and>
         newPyEthereumGenesisSpec P network genesis = Failed UnsupportedConsensusEngine"
  using assms
  by (simp add: newAlethGenesisSpec_def newParityChainSpec_def newPyEthereumGenesisSpec_def)

theorem unsupported_engine_rejected_witness:
  "c_Ethash (g_Config (genesisWith cliqueConfig [])) = None \<and>
   newAlethGenesisSpec upstreamProtocol ''net'' (genesisWith cliqueConfig []) =
     Failed UnsupportedConsensusEngine \<and>
   newParityChainSpec upstreamProtocol ''net'' (genesisWith cliqueConfig []) [] =
     Failed UnsupportedConsensusEngine \<and>
   newPyEthereumGenesisSpec upstreamProtocol ''net'' (genesisWith cliqueConfig []) =
     Failed UnsupportedConsensusEngine"
proof -
  have h: "c_Ethash (g_Config (genesisWith cliqueConfig [])) = None"
    by (simp add: genesisWith_def cliqueConfig_def)
  from unsupported_engine_rejected [OF h] h show ?thesis by blast
qed

subsection \<open>Format A\<close>

text \<open>
  C7. For every genesis model that \<open>newAlethGenesisSpec\<close> accepts, the returned
  specification has account start nonce 0, tie-breaking gas false, allow-future-blocks
  false and DAO hardfork block 0, whatever the genesis model holds.
\<close>

theorem aleth_fixed_defaults:
  assumes "newAlethGenesisSpec P network genesis = Returned spec"
  shows "ap_AccountStartNonce (a_Params spec) = 0 \<and>
         ap_TieBreakingGas (a_Params spec) = False \<and>
         ap_AllowFutureBlocks (a_Params spec) = False \<and>
         ap_DaoHardforkBlock (a_Params spec) = 0"
proof -
  from newAleth_params [OF assms] obtain n where
    "a_Params spec = alethParamsOf P (g_Config genesis) (BigUint64 n)" by blast
  then show ?thesis by (simp add: alethParamsOf_def)
qed

theorem aleth_fixed_defaults_witness:
  "\<exists>spec. newAlethGenesisSpec upstreamProtocol ''net''
            (genesisWith scenarioConfig scenarioAlloc) = Returned spec \<and>
          ap_AccountStartNonce (a_Params spec) = 0 \<and>
          ap_TieBreakingGas (a_Params spec) = False \<and>
          ap_AllowFutureBlocks (a_Params spec) = False \<and>
          ap_DaoHardforkBlock (a_Params spec) = 0"
proof -
  from aleth_scenario_returns obtain spec where
    r: "newAlethGenesisSpec upstreamProtocol ''net''
          (genesisWith scenarioConfig scenarioAlloc) = Returned spec" by blast
  from aleth_fixed_defaults [OF r] r show ?thesis by blast
qed

text \<open>
  C8. For every genesis model that \<open>newAlethGenesisSpec\<close> accepts, each of the seven fork
  block fields of the returned specification (Homestead, EIP150, EIP158, Byzantium,
  Constantinople, ConstantinopleFix, Istanbul) equals the corresponding field of the
  model (ConstantinopleFix takes the Petersburg block): it is nil exactly when the
  model's field is nil, and holds the same number otherwise.
\<close>

theorem aleth_fork_blocks:
  assumes "newAlethGenesisSpec P network genesis = Returned spec"
  shows "ap_HomesteadForkBlock (a_Params spec) = c_HomesteadBlock (g_Config genesis) \<and>
         ap_EIP150ForkBlock (a_Params spec) = c_EIP150Block (g_Config genesis) \<and>
         ap_EIP158ForkBlock (a_Params spec) = c_EIP158Block (g_Config genesis) \<and>
         ap_ByzantiumForkBlock (a_Params spec) = c_ByzantiumBlock (g_Config genesis) \<and>
         ap_ConstantinopleForkBlock (a_Params spec) =
           c_ConstantinopleBlock (g_Config genesis) \<and>
         ap_ConstantinopleFixForkBlock (a_Params spec) = c_PetersburgBlock (g_Config genesis) \<and>
         ap_IstanbulForkBlock (a_Params spec) = c_IstanbulBlock (g_Config genesis)"
proof -
  from newAleth_params [OF assms] obtain n where
    "a_Params spec = alethParamsOf P (g_Config genesis) (BigUint64 n)" by blast
  then show ?thesis by (simp add: alethParamsOf_def)
qed

theorem aleth_fork_blocks_witness:
  "\<exists>spec. newAlethGenesisSpec upstreamProtocol ''net''
            (genesisWith scenarioConfig scenarioAlloc) = Returned spec \<and>
          ap_HomesteadForkBlock (a_Params spec) = Some 0 \<and>
          ap_EIP150ForkBlock (a_Params spec) = None \<and>
          ap_EIP158ForkBlock (a_Params spec) = None \<and>
          ap_ByzantiumForkBlock (a_Params spec) = Some 10 \<and>
          ap_ConstantinopleForkBlock (a_Params spec) = None \<and>
          ap_ConstantinopleFixForkBlock (a_Params spec) = None \<and>
          ap_IstanbulForkBlock (a_Params spec) = Some 20"
proof -
  from aleth_scenario_returns obtain spec where
    r: "newAlethGenesisSpec upstreamProtocol ''net''
          (genesisWith scenarioConfig scenarioAlloc) = Returned spec" by blast
  from aleth_fork_blocks [OF r] r show ?thesis
    by (simp add: genesisWith_def scenarioConfig_def noForkConfig_def)
qed

text \<open>
  C6. For a genesis model with the Ethash engine, chain id 1234, Homestead block 0,
  Byzantium block 10, Istanbul block 20 and the single allocation entry that gives the
  address \<open>0x0000000000000000000000000000000000000001\<close> the balance 100,
  \<open>newAlethGenesisSpec\<close> returns a specification in which the account at that address
  has balance 100, the precompile at address 5 is named modexp and starts at block 10,
  and the precompile at address 9 is named blake2_compression and starts at block 20.
  The other fields of the model are arbitrary.
\<close>

theorem aleth_scenario:
  assumes "c_Ethash (g_Config genesis) = Some ()"
    and "c_ChainID (g_Config genesis) = Some 1234"
    and "c_HomesteadBlock (g_Config genesis) = Some 0"
    and "c_ByzantiumBlock (g_Config genesis) = Some 10"
    and "c_IstanbulBlock (g_Config genesis) = Some 20"
    and "g_Alloc genesis = [(addressOne, \<lparr>ga_Balance = Some 100, ga_Nonce = nonce\<rparr>)]"
  shows "\<exists>spec. newAlethGenesisSpec P network genesis = Returned spec \<and>
           alethBalanceAt spec addressOne = Some 100 \<and>
           alethPrecompileAt spec 5 =
             Some \<lparr>ab_Name = ''modexp'', ab_StartingBlock = Some 10, ab_Linear = None\<rparr> \<and>
           alethPrecompileAt spec 9 =
             Some \<lparr>ab_Name = ''blake2_compression'', ab_StartingBlock = Some 20,
                   ab_Linear = None\<rparr>"
  using assms
  by (simp add: newAlethGenesisSpec_def builder_defs alethFrontierPrecompiles_def
      alethByzantiumPrecompiles_def alethIstanbulPrecompiles_def alethPrecompileAt_set
      alethBalanceAt_set)
     (simp add: alethBalanceAt_def alethSetAccount_accounts alethAccounts_nil)

theorem aleth_scenario_witness:
  "\<exists>spec. newAlethGenesisSpec upstreamProtocol ''net''
             (genesisWith scenarioConfig scenarioAlloc) = Returned spec \<and>
           alethBalanceAt spec addressOne = Some 100 \<and>
           alethPrecompileAt spec 5 =
             Some \<lparr>ab_Name = ''modexp'', ab_StartingBlock = Some 10, ab_Linear = None\<rparr> \<and>
           alethPrecompileAt spec 9 =
             Some \<lparr>ab_Name = ''blake2_compression'', ab_StartingBlock = Some 20,
                   ab_Linear = None\<rparr>"
  by (rule aleth_scenario) (simp_all add: scenario_config)

subsection \<open>setPrecompile\<close>

text \<open>
  C10. For every specification under construction and every single-byte address whose
  20-byte form already has an account in the table, \<open>setPrecompile\<close> replaces only the
  precompile definition of that account: the result is the same specification with the
  same account at that address except for its \<open>Precompiled\<close> field (Format A),
  respectively its \<open>Builtin\<close> field (Format B); in particular the balance and the nonce
  of the account are unchanged.
\<close>

theorem setPrecompile_keeps_balance_and_nonce:
  "(a_Accounts spec = Some m \<and> m (BytesToAddress [address]) = Some acc \<longrightarrow>
      alethSetPrecompile address data spec =
        spec\<lparr>a_Accounts :=
          Some (m(BytesToAddress [address] \<mapsto> acc\<lparr>aa_Precompiled := data\<rparr>))\<rparr> \<and>
      (\<exists>acc'. alethAccounts (alethSetPrecompile address data spec) (BytesToAddress [address])
                 = Some acc' \<and>
               aa_Balance acc' = aa_Balance acc \<and> aa_Nonce acc' = aa_Nonce acc \<and>
               aa_Precompiled acc' = data)) \<and>
   (p_Accounts pspec = Some pm \<and> pm (BytesToAddress [address]) = Some pacc \<longrightarrow>
      paritySetPrecompile address pdata pspec =
        pspec\<lparr>p_Accounts :=
          Some (pm(BytesToAddress [address] \<mapsto> pacc\<lparr>pac_Builtin := pdata\<rparr>))\<rparr> \<and>
      (\<exists>pacc'. parityAccounts (paritySetPrecompile address pdata pspec)
                  (BytesToAddress [address]) = Some pacc' \<and>
                pac_Balance pacc' = pac_Balance pacc \<and> pac_Nonce pacc' = pac_Nonce pacc \<and>
                pac_Builtin pacc' = pdata))"
  by (simp add: alethSetPrecompile_def paritySetPrecompile_def Let_def alethAccounts_def
      parityAccounts_def)

text \<open>
  The witness sets precompile 1 on two specifications whose tables already hold the
  prefunded account of the scenario at that address, with balance 100 and nonce 7.
\<close>

theorem setPrecompile_keeps_balance_and_nonce_witness:
  "(\<exists>acc'. alethAccounts
             (alethSetPrecompile 1
                (Some \<lparr>ab_Name = ''ecrecover'', ab_StartingBlock = None,
                       ab_Linear = Some \<lparr>al_Base = 3000, al_Word = 0\<rparr>\<rparr>) prefundedAleth)
             (BytesToAddress [1]) = Some acc' \<and>
           aa_Balance acc' = Some 100 \<and> aa_Nonce acc' = 7 \<and>
           aa_Precompiled acc' =
             Some \<lparr>ab_Name = ''ecrecover'', ab_StartingBlock = None,
                   ab_Linear = Some \<lparr>al_Base = 3000, al_Word = 0\<rparr>\<rparr>) \<and>
   (\<exists>pacc'. parityAccounts
              (paritySetPrecompile 1
                 (Some \<lparr>pbi_Name = ''ecrecover'', pbi_Pricing = parityLinear 3000 0,
                        pbi_ActivateAt = None\<rparr>) prefundedParity)
              (BytesToAddress [1]) = Some pacc' \<and>
            pac_Balance pacc' = 100 \<and> pac_Nonce pacc' = 7 \<and>
            pac_Builtin pacc' =
              Some \<lparr>pbi_Name = ''ecrecover'', pbi_Pricing = parityLinear 3000 0,
                    pbi_ActivateAt = None\<rparr>)"
proof -
  let ?m = "[addressOne \<mapsto> \<lparr>aa_Balance = Some 100, aa_Nonce = 7, aa_Precompiled = None\<rparr>]"
  let ?pm = "[addressOne \<mapsto> \<lparr>pac_Balance = 100, pac_Nonce = 7, pac_Builtin = None\<rparr>]"
  have a: "a_Accounts prefundedAleth = Some ?m \<and>
           ?m (BytesToAddress [1]) =
             Some \<lparr>aa_Balance = Some 100, aa_Nonce = 7, aa_Precompiled = None\<rparr>"
    by (simp add: prefundedAleth_def BytesToAddress_single addressOne_def)
  have p: "p_Accounts prefundedParity = Some ?pm \<and>
           ?pm (BytesToAddress [1]) =
             Some \<lparr>pac_Balance = 100, pac_Nonce = 7, pac_Builtin = None\<rparr>"
    by (simp add: prefundedParity_def BytesToAddress_single addressOne_def)
  note t = setPrecompile_keeps_balance_and_nonce [of prefundedAleth ?m 1
      "\<lparr>aa_Balance = Some 100, aa_Nonce = 7, aa_Precompiled = None\<rparr>"
      "Some \<lparr>ab_Name = ''ecrecover'', ab_StartingBlock = None,
             ab_Linear = Some \<lparr>al_Base = 3000, al_Word = 0\<rparr>\<rparr>"
      prefundedParity ?pm
      "\<lparr>pac_Balance = 100, pac_Nonce = 7, pac_Builtin = None\<rparr>"
      "Some \<lparr>pbi_Name = ''ecrecover'', pbi_Pricing = parityLinear 3000 0,
             pbi_ActivateAt = None\<rparr>"]
  from t a have "\<exists>acc'. alethAccounts
             (alethSetPrecompile 1
                (Some \<lparr>ab_Name = ''ecrecover'', ab_StartingBlock = None,
                       ab_Linear = Some \<lparr>al_Base = 3000, al_Word = 0\<rparr>\<rparr>) prefundedAleth)
             (BytesToAddress [1]) = Some acc' \<and>
           aa_Balance acc' =
             aa_Balance \<lparr>aa_Balance = Some 100, aa_Nonce = 7, aa_Precompiled = None\<rparr> \<and>
           aa_Nonce acc' =
             aa_Nonce \<lparr>aa_Balance = Some 100, aa_Nonce = 7, aa_Precompiled = None\<rparr> \<and>
           aa_Precompiled acc' =
             Some \<lparr>ab_Name = ''ecrecover'', ab_StartingBlock = None,
                   ab_Linear = Some \<lparr>al_Base = 3000, al_Word = 0\<rparr>\<rparr>"
    by blast
  moreover from t p have "\<exists>pacc'. parityAccounts
              (paritySetPrecompile 1
                 (Some \<lparr>pbi_Name = ''ecrecover'', pbi_Pricing = parityLinear 3000 0,
                        pbi_ActivateAt = None\<rparr>) prefundedParity)
              (BytesToAddress [1]) = Some pacc' \<and>
            pac_Balance pacc' =
              pac_Balance \<lparr>pac_Balance = 100, pac_Nonce = 7, pac_Builtin = None\<rparr> \<and>
            pac_Nonce pacc' =
              pac_Nonce \<lparr>pac_Balance = 100, pac_Nonce = 7, pac_Builtin = None\<rparr> \<and>
            pac_Builtin pacc' =
              Some \<lparr>pbi_Name = ''ecrecover'', pbi_Pricing = parityLinear 3000 0,
                    pbi_ActivateAt = None\<rparr>"
    by blast
  ultimately show ?thesis by simp
qed

subsection \<open>Format B\<close>

text \<open>
  C4, as the code has it. \<open>newParityChainSpec\<close> creates the block-reward map and the
  difficulty-bomb-delay map empty and seeds only the block-reward map, with the Frontier
  reward under the key \<open>"0x0"\<close>; the bomb-delay map receives no base entry. Then
  Byzantium and Constantinople, in this order and each only when its block is set, write
  in each map the entry keyed by the text of that fork's block: the fork's block reward
  in the first map, the delays 3000000 and 2000000 in the second. In every returned
  specification the two maps are exactly the result of these writes.
\<close>

theorem parity_reward_and_delay_schedules:
  assumes "newParityChainSpec P network genesis bootnodes = Returned spec"
  shows "pe_BlockReward (p_Engine spec) =
           Some (scheduleEntry P (c_ConstantinopleBlock (g_Config genesis))
                   (EncodeBig P (ConstantinopleBlockReward P))
                  (scheduleEntry P (c_ByzantiumBlock (g_Config genesis))
                     (EncodeBig P (ByzantiumBlockReward P))
                    [''0x0'' \<mapsto> EncodeBig P (FrontierBlockReward P)])) \<and>
         pe_DifficultyBombDelays (p_Engine spec) =
           Some (scheduleEntry P (c_ConstantinopleBlock (g_Config genesis))
                   (EncodeUint64 P 2000000)
                  (scheduleEntry P (c_ByzantiumBlock (g_Config genesis))
                     (EncodeUint64 P 3000000) Map.empty))"
proof -
  from newParity_returned [OF assms] obtain s1 s2 where
    s1: "parityForkSchedule P (g_Config genesis) (parityChainSpec_new P network bootnodes)
           = Returned s1"
    and s2: "parityParamsOf P (g_Config genesis) s1 = Returned s2"
    and e: "p_Engine spec = p_Engine s2" by blast
  from parityParamsOf_returned [OF s2] e have "p_Engine spec = p_Engine s1" by simp
  with parityForkSchedule_maps [OF s1] show ?thesis by simp
qed

theorem parity_reward_and_delay_schedules_witness:
  "\<exists>spec. newParityChainSpec upstreamProtocol ''net''
            (genesisWith allForksConfig scenarioAlloc) [] = Returned spec \<and>
          pe_BlockReward (p_Engine spec) =
            Some [''0x0'' \<mapsto> ''0x4563918244f40000'', ''0xa'' \<mapsto> ''0x29a2241af62c0000'',
                  ''0xf'' \<mapsto> ''0x1bc16d674ec80000''] \<and>
          pe_DifficultyBombDelays (p_Engine spec) =
            Some [''0xa'' \<mapsto> ''0x2dc6c0'', ''0xf'' \<mapsto> ''0x1e8480'']"
proof -
  from parity_allForks_returns obtain spec where
    r: "newParityChainSpec upstreamProtocol ''net''
          (genesisWith allForksConfig scenarioAlloc) [] = Returned spec" by blast
  from parity_reward_and_delay_schedules [OF r] r show ?thesis
    by (simp add: allForks_config scheduleEntry_def upstream_codecs)
qed

text \<open>
  C4 as stated fails: on a genesis model that the builder accepts and that sets neither
  the Byzantium nor the Constantinople block, the bomb-delay map of the returned
  specification is empty, so it has no base entry for block 0, while the block-reward
  map has its entry for \<open>"0x0"\<close>.
\<close>

theorem bomb_delays_have_no_base_entry:
  "(case newParityChainSpec upstreamProtocol ''net'' (genesisWith spuriousDragonConfig []) [] of
      Returned spec \<Rightarrow>
        pe_BlockReward (p_Engine spec) = Some [''0x0'' \<mapsto> ''0x4563918244f40000''] \<and>
        pe_DifficultyBombDelays (p_Engine spec) = Some Map.empty
    | Failed e \<Rightarrow> False
    | Panicked p \<Rightarrow> False)"
proof -
  from parity_spuriousDragon_returns obtain spec where
    r: "newParityChainSpec upstreamProtocol ''net''
          (genesisWith spuriousDragonConfig []) [] = Returned spec" by blast
  from newParity_returned [OF r] obtain s1 s2 where
    s1: "parityForkSchedule upstreamProtocol (g_Config (genesisWith spuriousDragonConfig []))
           (parityChainSpec_new upstreamProtocol ''net'' []) = Returned s1"
    and s2: "parityParamsOf upstreamProtocol (g_Config (genesisWith spuriousDragonConfig [])) s1
               = Returned s2"
    and e: "p_Engine spec = p_Engine s2" by blast
  from parityParamsOf_returned [OF s2] e have "p_Engine spec = p_Engine s1" by simp
  with parityForkSchedule_maps [OF s1] r show ?thesis
    by (simp add: genesisWith_def spuriousDragonConfig_def noForkConfig_def scheduleEntry_def
        upstream_codecs)
qed

text \<open>
  C9, as the code has it. In every specification that \<open>newParityChainSpec\<close> returns,
  the EIP98 transition is \<open>math.MaxInt64\<close>, that is \<open>0x7FFFFFFFFFFFFFFF\<close> or
  \<open>2^63 - 1\<close>, whatever the genesis model holds.
\<close>

theorem parity_eip98_is_MaxInt64:
  assumes "newParityChainSpec P network genesis bootnodes = Returned spec"
  shows "pp_EIP98Transition (p_Params spec) = 0x7FFFFFFFFFFFFFFF \<and>
         uint (pp_EIP98Transition (p_Params spec)) = MaxInt64"
proof -
  from newParity_returned [OF assms] obtain s1 s2 where
    s2: "parityParamsOf P (g_Config genesis) s1 = Returned s2"
    and e: "p_Params spec = p_Params s2" by blast
  from parityParamsOf_returned [OF s2] e show ?thesis by (simp add: MaxInt64_def)
qed

theorem parity_eip98_is_MaxInt64_witness:
  "\<exists>spec. newParityChainSpec upstreamProtocol ''net''
            (genesisWith allForksConfig scenarioAlloc) [] = Returned spec \<and>
          pp_EIP98Transition (p_Params spec) = 0x7FFFFFFFFFFFFFFF \<and>
          uint (pp_EIP98Transition (p_Params spec)) = 9223372036854775807"
proof -
  from parity_allForks_returns obtain spec where
    r: "newParityChainSpec upstreamProtocol ''net''
          (genesisWith allForksConfig scenarioAlloc) [] = Returned spec" by blast
  from parity_eip98_is_MaxInt64 [OF r] r show ?thesis by (simp add: MaxInt64_def)
qed

text \<open>
  C9 as stated fails: the field is a \<open>uint64\<close>, whose greatest value is
  \<open>0xFFFFFFFFFFFFFFFF\<close>; the value the builder writes is strictly smaller, so it is not
  the greatest block number the field can hold.
\<close>

theorem eip98_below_uint64_maximum:
  "(case newParityChainSpec upstreamProtocol ''net'' (genesisWith spuriousDragonConfig []) [] of
      Returned spec \<Rightarrow>
        pp_EIP98Transition (p_Params spec) = 0x7FFFFFFFFFFFFFFF \<and>
        pp_EIP98Transition (p_Params spec) < 0xFFFFFFFFFFFFFFFF
    | Failed e \<Rightarrow> False
    | Panicked p \<Rightarrow> False)"
proof -
  from parity_spuriousDragon_returns obtain spec where
    r: "newParityChainSpec upstreamProtocol ''net''
          (genesisWith spuriousDragonConfig []) [] = Returned spec" by blast
  from newParity_returned [OF r] obtain s1 s2 where
    s2: "parityParamsOf upstreamProtocol (g_Config (genesisWith spuriousDragonConfig [])) s1
               = Returned s2"
    and e: "p_Params spec = p_Params s2" by blast
  from parityParamsOf_returned [OF s2] e r show ?thesis by (simp add: MaxInt64_def)
qed

subsection \<open>The two precompile phases\<close>

text \<open>
  C3. For every genesis model in which both the Byzantium and the Istanbul block are set,
  the precompile addresses that a builder writes in its Byzantium phase and again in its
  Istanbul phase hold the Istanbul-phase definition in the returned specification, not
  the Byzantium-phase one: in Format A the addresses 6 and 7 (no linear pricing), in
  Format B the addresses 6, 7 and 8 (versioned pricing tables). Lemmas
  \<open>alethSetPrecompile_replaces\<close> and \<open>paritySetPrecompile_replaces\<close> state the
  mechanism: a later \<open>setPrecompile\<close> for an address replaces the definition written by
  an earlier one.
\<close>

theorem istanbul_definitions_replace_byzantium:
  assumes byz: "c_ByzantiumBlock (g_Config genesis) = Some b"
    and ist: "c_IstanbulBlock (g_Config genesis) = Some i"
  shows "(newAlethGenesisSpec P network genesis = Returned spec \<longrightarrow>
            alethPrecompileAt spec 6 =
              Some \<lparr>ab_Name = ''alt_bn128_G1_add'', ab_StartingBlock = Some b,
                    ab_Linear = None\<rparr> \<and>
            alethPrecompileAt spec 6 \<noteq>
              Some \<lparr>ab_Name = ''alt_bn128_G1_add'', ab_StartingBlock = Some b,
                    ab_Linear = Some \<lparr>al_Base = 500, al_Word = 0\<rparr>\<rparr> \<and>
            alethPrecompileAt spec 7 =
              Some \<lparr>ab_Name = ''alt_bn128_G1_mul'', ab_StartingBlock = Some b,
                    ab_Linear = None\<rparr> \<and>
            alethPrecompileAt spec 7 \<noteq>
              Some \<lparr>ab_Name = ''alt_bn128_G1_mul'', ab_StartingBlock = Some b,
                    ab_Linear = Some \<lparr>al_Base = 40000, al_Word = 0\<rparr>\<rparr>) \<and>
         (newParityChainSpec P network genesis bootnodes = Returned pspec \<longrightarrow>
            parityBuiltinAt pspec 6 =
              Some \<lparr>pbi_Name = ''alt_bn128_add'',
                    pbi_Pricing = constOperationPrices (Some i) 500 150,
                    pbi_ActivateAt = Some b\<rparr> \<and>
            parityBuiltinAt pspec 6 \<noteq>
              Some \<lparr>pbi_Name = ''alt_bn128_add'', pbi_Pricing = parityLinear 500 0,
                    pbi_ActivateAt = Some b\<rparr> \<and>
            parityBuiltinAt pspec 7 =
              Some \<lparr>pbi_Name = ''alt_bn128_mul'',
                    pbi_Pricing = constOperationPrices (Some i) 40000 6000,
                    pbi_ActivateAt = Some b\<rparr> \<and>
            parityBuiltinAt pspec 7 \<noteq>
              Some \<lparr>pbi_Name = ''alt_bn128_mul'', pbi_Pricing = parityLinear 40000 0,
                    pbi_ActivateAt = Some b\<rparr> \<and>
            parityBuiltinAt pspec 8 =
              Some \<lparr>pbi_Name = ''alt_bn128_pairing'', pbi_Pricing = pairingPrices (Some i),
                    pbi_ActivateAt = Some b\<rparr> \<and>
            parityBuiltinAt pspec 8 \<noteq>
              Some \<lparr>pbi_Name = ''alt_bn128_pairing'',
                    pbi_Pricing = Some (SinglePricing \<lparr>ppr_Linear = None, ppr_ModExp = None,
                       ppr_AltBnPairing = Some \<lparr>ppair_Base = 100000, ppair_Pair = 80000\<rparr>,
                       ppr_Blake2F = None\<rparr>),
                    pbi_ActivateAt = Some b\<rparr>)"
proof (intro conjI impI)
  assume r: "newAlethGenesisSpec P network genesis = Returned spec"
  from newAleth_istanbul_form [OF r byz ist] obtain s where
    s: "spec = alethIstanbulPrecompiles (Some b) (Some i) s" by blast
  show "alethPrecompileAt spec 6 =
      Some \<lparr>ab_Name = ''alt_bn128_G1_add'', ab_StartingBlock = Some b, ab_Linear = None\<rparr>"
    and "alethPrecompileAt spec 6 \<noteq>
      Some \<lparr>ab_Name = ''alt_bn128_G1_add'', ab_StartingBlock = Some b,
            ab_Linear = Some \<lparr>al_Base = 500, al_Word = 0\<rparr>\<rparr>"
    and "alethPrecompileAt spec 7 =
      Some \<lparr>ab_Name = ''alt_bn128_G1_mul'', ab_StartingBlock = Some b, ab_Linear = None\<rparr>"
    and "alethPrecompileAt spec 7 \<noteq>
      Some \<lparr>ab_Name = ''alt_bn128_G1_mul'', ab_StartingBlock = Some b,
            ab_Linear = Some \<lparr>al_Base = 40000, al_Word = 0\<rparr>\<rparr>"
    unfolding s by (simp_all add: alethIstanbulPrecompiles_def Let_def alethPrecompileAt_set)
next
  assume r: "newParityChainSpec P network genesis bootnodes = Returned pspec"
  from newParity_istanbul_form [OF r byz ist] obtain s where
    s: "pspec = parityIstanbulPrecompiles (Some b) (Some i) s" by blast
  show "parityBuiltinAt pspec 6 =
      Some \<lparr>pbi_Name = ''alt_bn128_add'',
            pbi_Pricing = constOperationPrices (Some i) 500 150, pbi_ActivateAt = Some b\<rparr>"
    and "parityBuiltinAt pspec 6 \<noteq>
      Some \<lparr>pbi_Name = ''alt_bn128_add'', pbi_Pricing = parityLinear 500 0,
            pbi_ActivateAt = Some b\<rparr>"
    and "parityBuiltinAt pspec 7 =
      Some \<lparr>pbi_Name = ''alt_bn128_mul'',
            pbi_Pricing = constOperationPrices (Some i) 40000 6000, pbi_ActivateAt = Some b\<rparr>"
    and "parityBuiltinAt pspec 7 \<noteq>
      Some \<lparr>pbi_Name = ''alt_bn128_mul'', pbi_Pricing = parityLinear 40000 0,
            pbi_ActivateAt = Some b\<rparr>"
    and "parityBuiltinAt pspec 8 =
      Some \<lparr>pbi_Name = ''alt_bn128_pairing'', pbi_Pricing = pairingPrices (Some i),
            pbi_ActivateAt = Some b\<rparr>"
    and "parityBuiltinAt pspec 8 \<noteq>
      Some \<lparr>pbi_Name = ''alt_bn128_pairing'',
            pbi_Pricing = Some (SinglePricing \<lparr>ppr_Linear = None, ppr_ModExp = None,
               ppr_AltBnPairing = Some \<lparr>ppair_Base = 100000, ppair_Pair = 80000\<rparr>,
               ppr_Blake2F = None\<rparr>),
            pbi_ActivateAt = Some b\<rparr>"
    unfolding s
    by (simp_all add: parityIstanbulPrecompiles_def Let_def parityBuiltinAt_set
        constOperationPrices_def pairingPrices_def parityLinear_def)
qed

theorem istanbul_definitions_replace_byzantium_witness:
  "(\<exists>spec. newAlethGenesisSpec upstreamProtocol ''net''
             (genesisWith allForksConfig scenarioAlloc) = Returned spec \<and>
           alethPrecompileAt spec 6 =
             Some \<lparr>ab_Name = ''alt_bn128_G1_add'', ab_StartingBlock = Some 10,
                   ab_Linear = None\<rparr> \<and>
           alethPrecompileAt spec 7 =
             Some \<lparr>ab_Name = ''alt_bn128_G1_mul'', ab_StartingBlock = Some 10,
                   ab_Linear = None\<rparr>) \<and>
   (\<exists>pspec. newParityChainSpec upstreamProtocol ''net''
              (genesisWith allForksConfig scenarioAlloc) [] = Returned pspec \<and>
            parityBuiltinAt pspec 6 =
              Some \<lparr>pbi_Name = ''alt_bn128_add'',
                    pbi_Pricing = constOperationPrices (Some 20) 500 150,
                    pbi_ActivateAt = Some 10\<rparr> \<and>
            parityBuiltinAt pspec 7 =
              Some \<lparr>pbi_Name = ''alt_bn128_mul'',
                    pbi_Pricing = constOperationPrices (Some 20) 40000 6000,
                    pbi_ActivateAt = Some 10\<rparr> \<and>
            parityBuiltinAt pspec 8 =
              Some \<lparr>pbi_Name = ''alt_bn128_pairing'', pbi_Pricing = pairingPrices (Some 20),
                    pbi_ActivateAt = Some 10\<rparr>)"
proof -
  from aleth_allForks_returns obtain spec where
    a: "newAlethGenesisSpec upstreamProtocol ''net''
          (genesisWith allForksConfig scenarioAlloc) = Returned spec" by blast
  from parity_allForks_returns obtain pspec where
    p: "newParityChainSpec upstreamProtocol ''net''
          (genesisWith allForksConfig scenarioAlloc) [] = Returned pspec" by blast
  from istanbul_definitions_replace_byzantium [OF allForks_config(3) allForks_config(5),
      of upstreamProtocol "''net''" spec "[]" pspec] a p
  show ?thesis by blast
qed

subsection \<open>Nil fork blocks in Format B\<close>

text \<open>
  C1, evaluated where the code departs from it. The genesis model has the Ethash engine,
  chain id 1234, the Istanbul block 20 and every other fork block nil. The Format A
  builder returns the fork-dependency error and the Format C builder returns a
  specification, as the claim says; the Format B builder does not return the error: it
  panics on \<open>genesis.Config.HomesteadBlock.Uint64()\<close>, line 385, before it reaches the
  dependency check of line 486. Lemma \<open>parity_nil_homestead_panics\<close> gives the panic
  for every model with a nil Homestead block, and lemma \<open>parity_fork_dependency\<close> the
  error for the models whose unchecked pointers are all set.
\<close>

theorem istanbul_without_byzantium_parity_panics:
  "newAlethGenesisSpec upstreamProtocol ''net'' (genesisWith istanbulOnlyConfig []) =
     Failed InvalidForkDependency \<and>
   newParityChainSpec upstreamProtocol ''net'' (genesisWith istanbulOnlyConfig []) [] =
     Panicked NilDereference \<and>
   (case newPyEthereumGenesisSpec upstreamProtocol ''net'' (genesisWith istanbulOnlyConfig []) of
      Returned spec \<Rightarrow> py_Alloc spec = []
    | Failed e \<Rightarrow> False
    | Panicked p \<Rightarrow> False)"
proof -
  have "newAlethGenesisSpec upstreamProtocol ''net'' (genesisWith istanbulOnlyConfig []) =
          Failed InvalidForkDependency"
    by (rule aleth_fork_dependency) (rule istanbulOnly_config)+
  moreover
  have "newParityChainSpec upstreamProtocol ''net'' (genesisWith istanbulOnlyConfig []) [] =
          Panicked NilDereference"
    by (rule parity_nil_homestead_panics) (rule istanbulOnly_config)+
  moreover
  from pyethereum_returns [OF istanbulOnly_config(1), of upstreamProtocol "''net''"]
  have "(case newPyEthereumGenesisSpec upstreamProtocol ''net''
                (genesisWith istanbulOnlyConfig []) of
           Returned spec \<Rightarrow> py_Alloc spec = []
         | Failed e \<Rightarrow> False
         | Panicked p \<Rightarrow> False)"
    by (auto simp add: istanbulOnly_config)
  ultimately show ?thesis by blast
qed

text \<open>
  C2, evaluated where the code departs from it. The genesis model has the Ethash engine,
  chain id 1234 and every fork block nil. The Format A builder returns a specification
  whose precompiles stand at the addresses 1 to 4 and nowhere else, and the Format C
  builder returns a specification, which has no precompile table; the Format B builder
  returns no specification: it panics on \<open>genesis.Config.HomesteadBlock.Uint64()\<close>.
  Lemmas \<open>aleth_no_fork_precompiles\<close> and \<open>parity_no_fork_precompiles\<close> give the four
  precompiles in general, the latter for the models whose unchecked pointers are set.
\<close>

theorem no_forks_parity_panics:
  "(case newAlethGenesisSpec upstreamProtocol ''net'' (genesisWith noForkConfig []) of
      Returned spec \<Rightarrow>
        alethPrecompileAddresses spec =
          {BytesToAddress [1], BytesToAddress [2], BytesToAddress [3], BytesToAddress [4]}
    | Failed e \<Rightarrow> False
    | Panicked p \<Rightarrow> False) \<and>
   newParityChainSpec upstreamProtocol ''net'' (genesisWith noForkConfig []) [] =
     Panicked NilDereference \<and>
   (case newPyEthereumGenesisSpec upstreamProtocol ''net'' (genesisWith noForkConfig []) of
      Returned spec \<Rightarrow> py_Alloc spec = []
    | Failed e \<Rightarrow> False
    | Panicked p \<Rightarrow> False)"
proof -
  from aleth_no_fork_precompiles [OF noFork_config(1,2,4,5), of upstreamProtocol "''net''"]
  have "(case newAlethGenesisSpec upstreamProtocol ''net'' (genesisWith noForkConfig []) of
      Returned spec \<Rightarrow>
        alethPrecompileAddresses spec =
          {BytesToAddress [1], BytesToAddress [2], BytesToAddress [3], BytesToAddress [4]}
    | Failed e \<Rightarrow> False
    | Panicked p \<Rightarrow> False)"
    by auto
  moreover
  have "newParityChainSpec upstreamProtocol ''net'' (genesisWith noForkConfig []) [] =
          Panicked NilDereference"
    by (rule parity_nil_homestead_panics) (rule noFork_config)+
  moreover
  from pyethereum_returns [OF noFork_config(1), of upstreamProtocol "''net''"]
  have "(case newPyEthereumGenesisSpec upstreamProtocol ''net'' (genesisWith noForkConfig []) of
           Returned spec \<Rightarrow> py_Alloc spec = []
         | Failed e \<Rightarrow> False
         | Panicked p \<Rightarrow> False)"
    by (auto simp add: noFork_config)
  ultimately show ?thesis by blast
qed

end
